theory Spec2Isabelle
  imports Complex_Main
begin

section \<open>Numbers\<close>

text \<open>
  JavaScript numbers are modelled as \<^typ>\<open>real\<close>: rounding, \<open>NaN\<close> and the infinities of
  IEEE doubles are outside the model. The one place where the source could produce
  \<open>NaN\<close> is \<open>sumSquares / bufferLength\<close> with an empty buffer; the analyser of the source
  always has \<open>frequencyBinCount = fftSize / 2 = 128\<close> bins, so the buffers of the model
  are built with that length and the theorems about an arbitrary buffer ask for a
  non-empty one.
\<close>

section \<open>Loudness of one analysis buffer (\<open>analyze\<close> of \<open>useAudioMonitor\<close>)\<close>

text \<open>
  The hook \<open>useAudioMonitor\<close> is the second part of src/services/storage.ts; \<open>LiveMode\<close>
  imports it as services/audio. \<open>LiveMode\<close> is the first part of
  src/components/LiveMode.tsx.
\<close>

text \<open>\<open>analyser.fftSize = 256\<close>; \<open>frequencyBinCount\<close> is half of it.\<close>

definition fftSize :: nat where
  "fftSize = 256"

definition frequencyBinCount :: nat where
  "frequencyBinCount = fftSize div 2"

text \<open>
  \<open>getFloatTimeDomainData(dataArray)\<close> fills the \<open>Float32Array(bufferLength)\<close> from
  the analyser's current time-domain signal, here a function from the sample index.
\<close>

definition getFloatTimeDomainData :: "(nat \<Rightarrow> real) \<Rightarrow> real list" where
  "getFloatTimeDomainData td = map td [0..<frequencyBinCount]"

text \<open>
  \<^verbatim>\<open>let sumSquares = 0;
for (let i = 0; i < bufferLength; i++) sumSquares += dataArray[i] * dataArray[i];\<close>
\<close>

definition sumSquares :: "real list \<Rightarrow> real" where
  "sumSquares dataArray = foldl (\<lambda>acc x. acc + x * x) 0 dataArray"

text \<open>
  \<^verbatim>\<open>const rms = Math.sqrt(sumSquares / bufferLength);
const db = 20 * Math.log10(Math.max(rms, 1e-7));\<close>
\<close>

definition rms :: "real list \<Rightarrow> real" where
  "rms dataArray = sqrt (sumSquares dataArray / real (length dataArray))"

definition loudness_db :: "real list \<Rightarrow> real" where
  "loudness_db dataArray = 20 * log 10 (max (rms dataArray) (1 / 10 ^ 7))"

text \<open>The formula in the words of the specification, to compare the code with.\<close>

definition mean :: "real list \<Rightarrow> real" where
  "mean ys = sum_list ys / real (length ys)"

definition EPSILON :: real where
  "EPSILON = 1 / 10 ^ 7"

definition spec_loudness :: "real list \<Rightarrow> real" where
  "spec_loudness samples =
     20 * log 10 (max (sqrt (mean (map (\<lambda>x. x\<^sup>2) samples))) EPSILON)"

section \<open>Data\<close>

text \<open>Of a \<open>Song\<close>, the fields that the live mode reads.\<close>

record AudioTriggerConfig =
  threshold :: real

record Song =
  fontsize :: real
  scrollspeed :: real
  audioTrigger :: AudioTriggerConfig

text \<open>
  The scrolling container (\<open>containerRef.current\<close>), a DOM element. The DOM is not
  code of the repository; what the model takes from it is that a write to
  \<open>scrollTop\<close> is clamped into the scrollable range \<open>[0, scrollHeight - clientHeight]\<close>.
\<close>

record viewport =
  scrollTop :: real
  scrollHeight :: real
  clientHeight :: real

definition set_scrollTop :: "real \<Rightarrow> viewport \<Rightarrow> viewport" where
  "set_scrollTop y c = c\<lparr>scrollTop := max 0 (min (scrollHeight c - clientHeight c) y)\<rparr>"

text \<open>
  A callback waiting in the browser's animation-frame queue: \<open>analyze\<close> of the audio
  hook, or the \<open>scroll\<close> closure of a render of \<open>LiveMode\<close> together with the value
  of \<open>isScrolling\<close> that this closure captured.
\<close>

datatype callback = AnalyzeCb | ScrollCb bool

text \<open>
  The state of a mounted \<open>LiveMode\<close> with its \<open>useAudioMonitor\<close> hook: the \<open>useState\<close>
  cells, the \<open>useRef\<close> cells, the animation-frame queue and, for each \<open>useEffect\<close>, the
  dependency values of its last run (\<open>None\<close> before the first run).
  A \<open>number | null\<close> reference that is only tested for truthiness is a \<open>nat\<close> with
  0 for \<open>null\<close> (the identifiers of \<open>requestAnimationFrame\<close> are positive); a media
  object reference is a \<open>bool\<close>, \<open>True\<close> when it is set.
  \<open>thresholdDB\<close> is the value that \<open>analyze\<close> reads. \<open>startMonitoring\<close> is memoised
  with an empty dependency list, so the \<open>analyze\<close> it calls, and every \<open>analyze\<close>
  rescheduled from there, is the closure of the hook's first render: its
  \<open>thresholdDB\<close> is the argument of that first render and is never written again.
  \<open>acquiring\<close> counts the calls of \<open>startMonitoring\<close> that wait at
  \<open>await getUserMedia\<close>.
  Left out: the \<open>AudioContext\<close> (created once, suspended and resumed, with no effect
  on the cells below), the full-screen flag, and unmounting; the container and the
  progress bar are taken as mounted, so the guards on their references hold.
\<close>

record sys =
  song :: Song
  isMonitoring :: bool
  isScrolling :: bool
  lastFrameTime :: real
  animationRef :: nat
  containerRef :: viewport
  progressBarHeight :: real
  currentDB :: real
  triggered :: bool
  error :: "string option"
  streamRef :: bool
  analyserRef :: bool
  sourceRef :: bool
  animationFrameRef :: nat
  thresholdDB :: real
  acquiring :: nat
  rafNext :: nat
  rafQueue :: "(nat \<times> callback) list"
  depsMonitor :: "bool option"
  depsTrigger :: "(bool \<times> bool) option"
  depsScroll :: "bool option"
  depsProgress :: bool

section \<open>The browser's animation frames\<close>

definition requestAnimationFrame :: "callback \<Rightarrow> sys \<Rightarrow> nat \<times> sys" where
  "requestAnimationFrame cb s =
     (rafNext s, s\<lparr>rafNext := Suc (rafNext s), rafQueue := rafQueue s @ [(rafNext s, cb)]\<rparr>)"

definition cancelAnimationFrame :: "nat \<Rightarrow> sys \<Rightarrow> sys" where
  "cancelAnimationFrame i s = s\<lparr>rafQueue := filter (\<lambda>p. fst p \<noteq> i) (rafQueue s)\<rparr>"

section \<open>The audio hook (\<open>useAudioMonitor\<close>)\<close>

text \<open>
  \<open>startMonitoring\<close> up to its \<open>await\<close>: nothing of the state changes until
  \<open>getUserMedia\<close> settles.
\<close>

definition startMonitoring :: "sys \<Rightarrow> sys" where
  "startMonitoring s = s\<lparr>acquiring := Suc (acquiring s)\<rparr>"

definition stopMonitoring :: "sys \<Rightarrow> sys" where
  "stopMonitoring s =
     (let s1 = (if animationFrameRef s \<noteq> 0 then cancelAnimationFrame (animationFrameRef s) s
                else s)
      in s1\<lparr>streamRef := False, sourceRef := False, analyserRef := False\<rparr>)"

definition analyze :: "(nat \<Rightarrow> real) \<Rightarrow> sys \<Rightarrow> sys" where
  "analyze td s =
     (if \<not> analyserRef s then s
      else
        let db = loudness_db (getFloatTimeDomainData td);
            s1 = s\<lparr>currentDB := db\<rparr>;
            s2 = (if db > thresholdDB s1 then s1\<lparr>triggered := True\<rparr> else s1);
            (i, s3) = requestAnimationFrame AnalyzeCb s2
        in s3\<lparr>animationFrameRef := i\<rparr>)"

text \<open>
  The rest of \<open>startMonitoring\<close> once \<open>getUserMedia\<close> has resolved (the analyser is
  created and connected, \<open>analyze()\<close> runs once, the error is cleared), and its
  \<open>catch\<close> branch once the acquisition has failed.
\<close>

definition startMonitoring_resolved :: "(nat \<Rightarrow> real) \<Rightarrow> sys \<Rightarrow> sys" where
  "startMonitoring_resolved td s =
     (let s1 = s\<lparr>acquiring := acquiring s - 1, streamRef := True, analyserRef := True,
                  sourceRef := True\<rparr>;
          s2 = analyze td s1
      in s2\<lparr>error := None\<rparr>)"

definition startMonitoring_rejected :: "sys \<Rightarrow> sys" where
  "startMonitoring_rejected s =
     s\<lparr>acquiring := acquiring s - 1, error := Some ''Microphone access denied.''\<rparr>"

text \<open>The hook's effect for a render with the given \<open>enabled\<close>, and its cleanup.\<close>

definition monitorEffect :: "bool \<Rightarrow> sys \<Rightarrow> sys" where
  "monitorEffect enabled s =
     (if enabled then startMonitoring s
      else (stopMonitoring s)\<lparr>triggered := False, currentDB := - 100\<rparr>)"

definition monitorCleanup :: "sys \<Rightarrow> sys" where
  "monitorCleanup s = stopMonitoring s"

section \<open>The scroll loop (\<open>LiveMode\<close>)\<close>

definition shouldMonitor :: "sys \<Rightarrow> bool" where
  "shouldMonitor s = (isMonitoring s \<and> \<not> isScrolling s)"

definition updateProgressBar :: "sys \<Rightarrow> sys" where
  "updateProgressBar s =
     (let c = containerRef s;
          maxScroll = scrollHeight c - clientHeight c
      in if maxScroll > 0 then
           let progress = (scrollTop c / maxScroll) * 100;
               remaining = 100 - min 100 (max 0 progress)
           in s\<lparr>progressBarHeight := remaining\<rparr>
         else s)"

text \<open>
  One call of \<open>scroll(time)\<close>. \<open>captured\<close> is the \<open>isScrolling\<close> of the closure, which
  decides whether the callback schedules itself again.
\<close>

definition scroll :: "real \<Rightarrow> bool \<Rightarrow> sys \<Rightarrow> sys" where
  "scroll time captured s =
     (let s0 = (if lastFrameTime s = 0 then s\<lparr>lastFrameTime := time\<rparr> else s);
          deltaTime = (time - lastFrameTime s0) / 1000;
          s1 = s0\<lparr>lastFrameTime := time\<rparr>;
          moveAmount = scrollspeed (song s1) * deltaTime;
          s2 = (if moveAmount > 0 then
                  let s3 = updateProgressBar
                             (s1\<lparr>containerRef :=
                                   set_scrollTop (scrollTop (containerRef s1) + moveAmount)
                                     (containerRef s1)\<rparr>);
                      c = containerRef s3
                  in if scrollTop c + clientHeight c \<ge> scrollHeight c - 1
                     then s3\<lparr>isScrolling := False\<rparr> else s3
                else s1)
      in if captured then
           (let (i, s4) = requestAnimationFrame (ScrollCb captured) s2
            in s4\<lparr>animationRef := i\<rparr>)
         else s2)"

text \<open>The trigger effect, with the \<open>triggered\<close> and \<open>isScrolling\<close> of its render.\<close>

definition triggerEffect :: "bool \<Rightarrow> bool \<Rightarrow> sys \<Rightarrow> sys" where
  "triggerEffect trig scrolling s =
     (if trig \<and> \<not> scrolling then s\<lparr>isScrolling := True\<rparr> else s)"

text \<open>The effect that starts and stops the animation, and its cleanup.\<close>

definition scrollCleanup :: "sys \<Rightarrow> sys" where
  "scrollCleanup s =
     (if animationRef s \<noteq> 0 then cancelAnimationFrame (animationRef s) s else s)"

definition scrollEffect :: "bool \<Rightarrow> sys \<Rightarrow> sys" where
  "scrollEffect scrolling s =
     (if scrolling then
        (let s1 = s\<lparr>lastFrameTime := 0\<rparr>;
             (i, s2) = requestAnimationFrame (ScrollCb scrolling) s1
         in s2\<lparr>animationRef := i\<rparr>)
      else (if animationRef s \<noteq> 0 then cancelAnimationFrame (animationRef s) s else s))"

section \<open>Rendering and effects\<close>

text \<open>
  One render of the component followed by its effects, as React runs them: of the
  effects whose dependencies differ from those of their last run, first the cleanups in
  order, then the bodies in order, each body with the values of this render. The
  effect that installs the scroll and resize listeners has no dependencies and runs
  once, calling \<open>updateProgressBar\<close>.
\<close>

definition render_pass :: "sys \<Rightarrow> sys" where
  "render_pass s =
     (let enabled = shouldMonitor s;
          trig = triggered s;
          scrolling = isScrolling s;
          chM = (depsMonitor s \<noteq> Some enabled);
          chT = (depsTrigger s \<noteq> Some (trig, scrolling));
          chS = (depsScroll s \<noteq> Some scrolling);
          s1 = (if chM \<and> depsMonitor s \<noteq> None then monitorCleanup s else s);
          s2 = (if chS \<and> depsScroll s \<noteq> None then scrollCleanup s1 else s1);
          s3 = (if chM then monitorEffect enabled s2 else s2);
          s4 = (if chT then triggerEffect trig scrolling s3 else s3);
          s5 = (if chS then scrollEffect scrolling s4 else s4);
          s6 = (if \<not> depsProgress s then updateProgressBar s5 else s5)
      in s6\<lparr>depsMonitor := Some enabled, depsTrigger := Some (trig, scrolling),
             depsScroll := Some scrolling, depsProgress := True\<rparr>)"

text \<open>
  A state is dirty when a render would run an effect. React renders again as long as
  an effect has changed the state; \<open>commit\<close> is that loop.
\<close>

definition dirty :: "sys \<Rightarrow> bool" where
  "dirty s =
     (depsMonitor s \<noteq> Some (shouldMonitor s)
      \<or> depsTrigger s \<noteq> Some (triggered s, isScrolling s)
      \<or> depsScroll s \<noteq> Some (isScrolling s)
      \<or> \<not> depsProgress s)"

definition pending_work :: "sys \<Rightarrow> nat" where
  "pending_work s =
     (if triggered s then 2 else 0) + (if isScrolling s then 0 else 2)
     + (if dirty s then 1 else 0)"

text \<open>What each function leaves alone.\<close>

lemma cancelAnimationFrame_frame [simp]:
  "song (cancelAnimationFrame i s) = song s"
  "isMonitoring (cancelAnimationFrame i s) = isMonitoring s"
  "isScrolling (cancelAnimationFrame i s) = isScrolling s"
  "lastFrameTime (cancelAnimationFrame i s) = lastFrameTime s"
  "animationRef (cancelAnimationFrame i s) = animationRef s"
  "containerRef (cancelAnimationFrame i s) = containerRef s"
  "progressBarHeight (cancelAnimationFrame i s) = progressBarHeight s"
  "currentDB (cancelAnimationFrame i s) = currentDB s"
  "triggered (cancelAnimationFrame i s) = triggered s"
  "error (cancelAnimationFrame i s) = error s"
  "streamRef (cancelAnimationFrame i s) = streamRef s"
  "analyserRef (cancelAnimationFrame i s) = analyserRef s"
  "sourceRef (cancelAnimationFrame i s) = sourceRef s"
  "animationFrameRef (cancelAnimationFrame i s) = animationFrameRef s"
  "thresholdDB (cancelAnimationFrame i s) = thresholdDB s"
  "acquiring (cancelAnimationFrame i s) = acquiring s"
  "rafNext (cancelAnimationFrame i s) = rafNext s"
  "depsMonitor (cancelAnimationFrame i s) = depsMonitor s"
  "depsTrigger (cancelAnimationFrame i s) = depsTrigger s"
  "depsScroll (cancelAnimationFrame i s) = depsScroll s"
  "depsProgress (cancelAnimationFrame i s) = depsProgress s"
  by (simp_all add: cancelAnimationFrame_def)

lemma startMonitoring_frame [simp]:
  "song (startMonitoring s) = song s"
  "isMonitoring (startMonitoring s) = isMonitoring s"
  "isScrolling (startMonitoring s) = isScrolling s"
  "lastFrameTime (startMonitoring s) = lastFrameTime s"
  "animationRef (startMonitoring s) = animationRef s"
  "containerRef (startMonitoring s) = containerRef s"
  "progressBarHeight (startMonitoring s) = progressBarHeight s"
  "currentDB (startMonitoring s) = currentDB s"
  "triggered (startMonitoring s) = triggered s"
  "error (startMonitoring s) = error s"
  "streamRef (startMonitoring s) = streamRef s"
  "analyserRef (startMonitoring s) = analyserRef s"
  "sourceRef (startMonitoring s) = sourceRef s"
  "animationFrameRef (startMonitoring s) = animationFrameRef s"
  "thresholdDB (startMonitoring s) = thresholdDB s"
  "rafNext (startMonitoring s) = rafNext s"
  "rafQueue (startMonitoring s) = rafQueue s"
  "depsMonitor (startMonitoring s) = depsMonitor s"
  "depsTrigger (startMonitoring s) = depsTrigger s"
  "depsScroll (startMonitoring s) = depsScroll s"
  "depsProgress (startMonitoring s) = depsProgress s"
  by (simp_all add: startMonitoring_def)

lemma stopMonitoring_frame [simp]:
  "song (stopMonitoring s) = song s"
  "isMonitoring (stopMonitoring s) = isMonitoring s"
  "isScrolling (stopMonitoring s) = isScrolling s"
  "lastFrameTime (stopMonitoring s) = lastFrameTime s"
  "animationRef (stopMonitoring s) = animationRef s"
  "containerRef (stopMonitoring s) = containerRef s"
  "progressBarHeight (stopMonitoring s) = progressBarHeight s"
  "currentDB (stopMonitoring s) = currentDB s"
  "triggered (stopMonitoring s) = triggered s"
  "error (stopMonitoring s) = error s"
  "animationFrameRef (stopMonitoring s) = animationFrameRef s"
  "thresholdDB (stopMonitoring s) = thresholdDB s"
  "acquiring (stopMonitoring s) = acquiring s"
  "rafNext (stopMonitoring s) = rafNext s"
  "depsMonitor (stopMonitoring s) = depsMonitor s"
  "depsTrigger (stopMonitoring s) = depsTrigger s"
  "depsScroll (stopMonitoring s) = depsScroll s"
  "depsProgress (stopMonitoring s) = depsProgress s"
  by (simp_all add: stopMonitoring_def Let_def)

lemma analyze_frame [simp]:
  "song (analyze td s) = song s"
  "isMonitoring (analyze td s) = isMonitoring s"
  "isScrolling (analyze td s) = isScrolling s"
  "lastFrameTime (analyze td s) = lastFrameTime s"
  "animationRef (analyze td s) = animationRef s"
  "containerRef (analyze td s) = containerRef s"
  "progressBarHeight (analyze td s) = progressBarHeight s"
  "error (analyze td s) = error s"
  "streamRef (analyze td s) = streamRef s"
  "analyserRef (analyze td s) = analyserRef s"
  "sourceRef (analyze td s) = sourceRef s"
  "thresholdDB (analyze td s) = thresholdDB s"
  "acquiring (analyze td s) = acquiring s"
  "depsMonitor (analyze td s) = depsMonitor s"
  "depsTrigger (analyze td s) = depsTrigger s"
  "depsScroll (analyze td s) = depsScroll s"
  "depsProgress (analyze td s) = depsProgress s"
  by (simp_all add: analyze_def requestAnimationFrame_def Let_def)

lemma startMonitoring_resolved_frame [simp]:
  "song (startMonitoring_resolved td s) = song s"
  "isMonitoring (startMonitoring_resolved td s) = isMonitoring s"
  "isScrolling (startMonitoring_resolved td s) = isScrolling s"
  "lastFrameTime (startMonitoring_resolved td s) = lastFrameTime s"
  "animationRef (startMonitoring_resolved td s) = animationRef s"
  "containerRef (startMonitoring_resolved td s) = containerRef s"
  "progressBarHeight (startMonitoring_resolved td s) = progressBarHeight s"
  "thresholdDB (startMonitoring_resolved td s) = thresholdDB s"
  "depsMonitor (startMonitoring_resolved td s) = depsMonitor s"
  "depsTrigger (startMonitoring_resolved td s) = depsTrigger s"
  "depsScroll (startMonitoring_resolved td s) = depsScroll s"
  "depsProgress (startMonitoring_resolved td s) = depsProgress s"
  by (simp_all add: startMonitoring_resolved_def Let_def)

lemma startMonitoring_rejected_frame [simp]:
  "song (startMonitoring_rejected s) = song s"
  "isMonitoring (startMonitoring_rejected s) = isMonitoring s"
  "isScrolling (startMonitoring_rejected s) = isScrolling s"
  "lastFrameTime (startMonitoring_rejected s) = lastFrameTime s"
  "animationRef (startMonitoring_rejected s) = animationRef s"
  "containerRef (startMonitoring_rejected s) = containerRef s"
  "progressBarHeight (startMonitoring_rejected s) = progressBarHeight s"
  "currentDB (startMonitoring_rejected s) = currentDB s"
  "triggered (startMonitoring_rejected s) = triggered s"
  "streamRef (startMonitoring_rejected s) = streamRef s"
  "analyserRef (startMonitoring_rejected s) = analyserRef s"
  "sourceRef (startMonitoring_rejected s) = sourceRef s"
  "animationFrameRef (startMonitoring_rejected s) = animationFrameRef s"
  "thresholdDB (startMonitoring_rejected s) = thresholdDB s"
  "rafNext (startMonitoring_rejected s) = rafNext s"
  "rafQueue (startMonitoring_rejected s) = rafQueue s"
  "depsMonitor (startMonitoring_rejected s) = depsMonitor s"
  "depsTrigger (startMonitoring_rejected s) = depsTrigger s"
  "depsScroll (startMonitoring_rejected s) = depsScroll s"
  "depsProgress (startMonitoring_rejected s) = depsProgress s"
  by (simp_all add: startMonitoring_rejected_def)

lemma monitorEffect_frame [simp]:
  "song (monitorEffect en s) = song s"
  "isMonitoring (monitorEffect en s) = isMonitoring s"
  "isScrolling (monitorEffect en s) = isScrolling s"
  "lastFrameTime (monitorEffect en s) = lastFrameTime s"
  "animationRef (monitorEffect en s) = animationRef s"
  "containerRef (monitorEffect en s) = containerRef s"
  "progressBarHeight (monitorEffect en s) = progressBarHeight s"
  "error (monitorEffect en s) = error s"
  "animationFrameRef (monitorEffect en s) = animationFrameRef s"
  "thresholdDB (monitorEffect en s) = thresholdDB s"
  "rafNext (monitorEffect en s) = rafNext s"
  "depsMonitor (monitorEffect en s) = depsMonitor s"
  "depsTrigger (monitorEffect en s) = depsTrigger s"
  "depsScroll (monitorEffect en s) = depsScroll s"
  "depsProgress (monitorEffect en s) = depsProgress s"
  by (simp_all add: monitorEffect_def)

lemma monitorCleanup_frame [simp]:
  "song (monitorCleanup s) = song s"
  "isMonitoring (monitorCleanup s) = isMonitoring s"
  "isScrolling (monitorCleanup s) = isScrolling s"
  "lastFrameTime (monitorCleanup s) = lastFrameTime s"
  "animationRef (monitorCleanup s) = animationRef s"
  "containerRef (monitorCleanup s) = containerRef s"
  "progressBarHeight (monitorCleanup s) = progressBarHeight s"
  "currentDB (monitorCleanup s) = currentDB s"
  "triggered (monitorCleanup s) = triggered s"
  "error (monitorCleanup s) = error s"
  "animationFrameRef (monitorCleanup s) = animationFrameRef s"
  "thresholdDB (monitorCleanup s) = thresholdDB s"
  "acquiring (monitorCleanup s) = acquiring s"
  "rafNext (monitorCleanup s) = rafNext s"
  "depsMonitor (monitorCleanup s) = depsMonitor s"
  "depsTrigger (monitorCleanup s) = depsTrigger s"
  "depsScroll (monitorCleanup s) = depsScroll s"
  "depsProgress (monitorCleanup s) = depsProgress s"
  by (simp_all add: monitorCleanup_def)

lemma updateProgressBar_frame [simp]:
  "song (updateProgressBar s) = song s"
  "isMonitoring (updateProgressBar s) = isMonitoring s"
  "isScrolling (updateProgressBar s) = isScrolling s"
  "lastFrameTime (updateProgressBar s) = lastFrameTime s"
  "animationRef (updateProgressBar s) = animationRef s"
  "containerRef (updateProgressBar s) = containerRef s"
  "currentDB (updateProgressBar s) = currentDB s"
  "triggered (updateProgressBar s) = triggered s"
  "error (updateProgressBar s) = error s"
  "streamRef (updateProgressBar s) = streamRef s"
  "analyserRef (updateProgressBar s) = analyserRef s"
  "sourceRef (updateProgressBar s) = sourceRef s"
  "animationFrameRef (updateProgressBar s) = animationFrameRef s"
  "thresholdDB (updateProgressBar s) = thresholdDB s"
  "acquiring (updateProgressBar s) = acquiring s"
  "rafNext (updateProgressBar s) = rafNext s"
  "rafQueue (updateProgressBar s) = rafQueue s"
  "depsMonitor (updateProgressBar s) = depsMonitor s"
  "depsTrigger (updateProgressBar s) = depsTrigger s"
  "depsScroll (updateProgressBar s) = depsScroll s"
  "depsProgress (updateProgressBar s) = depsProgress s"
  by (simp_all add: updateProgressBar_def Let_def)

lemma triggerEffect_frame [simp]:
  "song (triggerEffect tr sc s) = song s"
  "isMonitoring (triggerEffect tr sc s) = isMonitoring s"
  "lastFrameTime (triggerEffect tr sc s) = lastFrameTime s"
  "animationRef (triggerEffect tr sc s) = animationRef s"
  "containerRef (triggerEffect tr sc s) = containerRef s"
  "progressBarHeight (triggerEffect tr sc s) = progressBarHeight s"
  "currentDB (triggerEffect tr sc s) = currentDB s"
  "triggered (triggerEffect tr sc s) = triggered s"
  "error (triggerEffect tr sc s) = error s"
  "streamRef (triggerEffect tr sc s) = streamRef s"
  "analyserRef (triggerEffect tr sc s) = analyserRef s"
  "sourceRef (triggerEffect tr sc s) = sourceRef s"
  "animationFrameRef (triggerEffect tr sc s) = animationFrameRef s"
  "thresholdDB (triggerEffect tr sc s) = thresholdDB s"
  "acquiring (triggerEffect tr sc s) = acquiring s"
  "rafNext (triggerEffect tr sc s) = rafNext s"
  "rafQueue (triggerEffect tr sc s) = rafQueue s"
  "depsMonitor (triggerEffect tr sc s) = depsMonitor s"
  "depsTrigger (triggerEffect tr sc s) = depsTrigger s"
  "depsScroll (triggerEffect tr sc s) = depsScroll s"
  "depsProgress (triggerEffect tr sc s) = depsProgress s"
  by (simp_all add: triggerEffect_def)

lemma scrollCleanup_frame [simp]:
  "song (scrollCleanup s) = song s"
  "isMonitoring (scrollCleanup s) = isMonitoring s"
  "isScrolling (scrollCleanup s) = isScrolling s"
  "lastFrameTime (scrollCleanup s) = lastFrameTime s"
  "animationRef (scrollCleanup s) = animationRef s"
  "containerRef (scrollCleanup s) = containerRef s"
  "progressBarHeight (scrollCleanup s) = progressBarHeight s"
  "currentDB (scrollCleanup s) = currentDB s"
  "triggered (scrollCleanup s) = triggered s"
  "error (scrollCleanup s) = error s"
  "streamRef (scrollCleanup s) = streamRef s"
  "analyserRef (scrollCleanup s) = analyserRef s"
  "sourceRef (scrollCleanup s) = sourceRef s"
  "animationFrameRef (scrollCleanup s) = animationFrameRef s"
  "thresholdDB (scrollCleanup s) = thresholdDB s"
  "acquiring (scrollCleanup s) = acquiring s"
  "rafNext (scrollCleanup s) = rafNext s"
  "depsMonitor (scrollCleanup s) = depsMonitor s"
  "depsTrigger (scrollCleanup s) = depsTrigger s"
  "depsScroll (scrollCleanup s) = depsScroll s"
  "depsProgress (scrollCleanup s) = depsProgress s"
  by (simp_all add: scrollCleanup_def)

lemma scrollEffect_frame [simp]:
  "song (scrollEffect sc s) = song s"
  "isMonitoring (scrollEffect sc s) = isMonitoring s"
  "isScrolling (scrollEffect sc s) = isScrolling s"
  "containerRef (scrollEffect sc s) = containerRef s"
  "progressBarHeight (scrollEffect sc s) = progressBarHeight s"
  "currentDB (scrollEffect sc s) = currentDB s"
  "triggered (scrollEffect sc s) = triggered s"
  "error (scrollEffect sc s) = error s"
  "streamRef (scrollEffect sc s) = streamRef s"
  "analyserRef (scrollEffect sc s) = analyserRef s"
  "sourceRef (scrollEffect sc s) = sourceRef s"
  "animationFrameRef (scrollEffect sc s) = animationFrameRef s"
  "thresholdDB (scrollEffect sc s) = thresholdDB s"
  "acquiring (scrollEffect sc s) = acquiring s"
  "depsMonitor (scrollEffect sc s) = depsMonitor s"
  "depsTrigger (scrollEffect sc s) = depsTrigger s"
  "depsScroll (scrollEffect sc s) = depsScroll s"
  "depsProgress (scrollEffect sc s) = depsProgress s"
  by (simp_all add: scrollEffect_def requestAnimationFrame_def Let_def)

lemma scroll_frame [simp]:
  "song (scroll time cap s) = song s"
  "isMonitoring (scroll time cap s) = isMonitoring s"
  "currentDB (scroll time cap s) = currentDB s"
  "triggered (scroll time cap s) = triggered s"
  "error (scroll time cap s) = error s"
  "streamRef (scroll time cap s) = streamRef s"
  "analyserRef (scroll time cap s) = analyserRef s"
  "sourceRef (scroll time cap s) = sourceRef s"
  "animationFrameRef (scroll time cap s) = animationFrameRef s"
  "thresholdDB (scroll time cap s) = thresholdDB s"
  "acquiring (scroll time cap s) = acquiring s"
  "depsMonitor (scroll time cap s) = depsMonitor s"
  "depsTrigger (scroll time cap s) = depsTrigger s"
  "depsScroll (scroll time cap s) = depsScroll s"
  "depsProgress (scroll time cap s) = depsProgress s"
  by (simp_all add: scroll_def requestAnimationFrame_def Let_def)
lemma monitorEffect_triggered [simp]:
  "triggered (monitorEffect en s) = (en \<and> triggered s)"
  by (simp add: monitorEffect_def)

lemma triggerEffect_isScrolling [simp]:
  "isScrolling (triggerEffect tr sc s) = (isScrolling s \<or> (tr \<and> \<not> sc))"
  by (auto simp add: triggerEffect_def)

lemma render_pass_frame [simp]:
  "song (render_pass s) = song s"
  "isMonitoring (render_pass s) = isMonitoring s"
  "containerRef (render_pass s) = containerRef s"
  "error (render_pass s) = error s"
  "animationFrameRef (render_pass s) = animationFrameRef s"
  "thresholdDB (render_pass s) = thresholdDB s"
  by (simp_all add: render_pass_def Let_def)

lemma render_pass_isScrolling:
  "isScrolling (render_pass s) =
     (isScrolling s \<or> (triggered s \<and> depsTrigger s \<noteq> Some (triggered s, isScrolling s)))"
  by (auto simp add: render_pass_def Let_def)

lemma render_pass_triggered:
  "triggered (render_pass s) =
     (triggered s \<and> \<not> (depsMonitor s \<noteq> Some (shouldMonitor s) \<and> \<not> shouldMonitor s))"
  by (auto simp add: render_pass_def Let_def)

lemma render_pass_deps [simp]:
  "depsMonitor (render_pass s) = Some (shouldMonitor s)"
  "depsTrigger (render_pass s) = Some (triggered s, isScrolling s)"
  "depsScroll (render_pass s) = Some (isScrolling s)"
  "depsProgress (render_pass s)"
  by (simp_all add: render_pass_def Let_def)

lemma pending_work_render_pass: "dirty s \<Longrightarrow> pending_work (render_pass s) < pending_work s"
  unfolding pending_work_def dirty_def shouldMonitor_def
  by (auto simp: render_pass_isScrolling render_pass_triggered shouldMonitor_def)

function commit :: "sys \<Rightarrow> sys" where
  "commit s = (if dirty s then commit (render_pass s) else s)"
  by pat_completeness auto
termination
  by (relation "measure pending_work") (simp_all add: pending_work_render_pass)

declare commit.simps [simp del]

section \<open>Events\<close>

text \<open>
  What can happen to a mounted \<open>LiveMode\<close>: a pending \<open>getUserMedia\<close> resolves (with the
  analyser's signal at that moment) or rejects; the browser runs the animation-frame
  callback with a given identifier, at a time stamp and with the analyser's signal of
  that frame; the user clicks the play/pause button, taps the screen, clicks Arm, or
  scrolls the container by hand; the parent passes an updated song. Each handler runs
  to its end and React then commits. An event that cannot happen in a state (no
  acquisition pending, no such callback queued, no Arm button shown) changes nothing.
\<close>

datatype event =
    GetUserMediaResolved "nat \<Rightarrow> real"
  | GetUserMediaRejected
  | AnimationFrame nat real "nat \<Rightarrow> real"
  | PlayPauseClick
  | ScreenTap
  | ArmClick
  | UserScroll real
  | SongUpdate Song

definition run_callback :: "callback \<Rightarrow> real \<Rightarrow> (nat \<Rightarrow> real) \<Rightarrow> sys \<Rightarrow> sys" where
  "run_callback cb time td s =
     (case cb of AnalyzeCb \<Rightarrow> analyze td s | ScrollCb captured \<Rightarrow> scroll time captured s)"

definition handle :: "event \<Rightarrow> sys \<Rightarrow> sys" where
  "handle e s =
     (case e of
        GetUserMediaResolved td \<Rightarrow>
          if acquiring s = 0 then s else startMonitoring_resolved td s
      | GetUserMediaRejected \<Rightarrow>
          if acquiring s = 0 then s else startMonitoring_rejected s
      | AnimationFrame i time td \<Rightarrow>
          (case map_of (rafQueue s) i of
             None \<Rightarrow> s
           | Some cb \<Rightarrow> run_callback cb time td (cancelAnimationFrame i s))
      | PlayPauseClick \<Rightarrow> s\<lparr>isScrolling := \<not> isScrolling s\<rparr>
      | ScreenTap \<Rightarrow> if isScrolling s then s\<lparr>isScrolling := False\<rparr> else s
      | ArmClick \<Rightarrow> if isMonitoring s then s else s\<lparr>isMonitoring := True\<rparr>
      | UserScroll y \<Rightarrow>
          updateProgressBar (s\<lparr>containerRef := set_scrollTop y (containerRef s)\<rparr>)
      | SongUpdate sg \<Rightarrow> s\<lparr>song := sg\<rparr>)"

definition step :: "event \<Rightarrow> sys \<Rightarrow> sys" where
  "step e s = commit (handle e s)"

definition run :: "event list \<Rightarrow> sys \<Rightarrow> sys" where
  "run es s = foldl (\<lambda>s e. step e s) s es"

text \<open>
  The state of the first render (\<open>isMonitoring\<close> starts as \<open>true\<close>, the progress bar at
  100%, \<open>currentDB\<close> at -100), and the mounted component after its first commit.
\<close>

definition initial :: "Song \<Rightarrow> viewport \<Rightarrow> sys" where
  "initial sg c =
     \<lparr>song = sg, isMonitoring = True, isScrolling = False, lastFrameTime = 0,
      animationRef = 0, containerRef = c, progressBarHeight = 100, currentDB = - 100,
      triggered = False, error = None, streamRef = False, analyserRef = False,
      sourceRef = False, animationFrameRef = 0,
      thresholdDB = threshold (audioTrigger sg), acquiring = 0, rafNext = 1,
      rafQueue = [], depsMonitor = None, depsTrigger = None, depsScroll = None,
      depsProgress = False\<rparr>"

definition mount :: "Song \<Rightarrow> viewport \<Rightarrow> sys" where
  "mount sg c = commit (initial sg c)"

section \<open>Runs of the callbacks, and example inputs\<close>

text \<open>
  Successive calls of \<open>analyze\<close> on the signals of successive frames: the samples of
  one armed session of the hook taken alone. Likewise successive calls of the
  \<open>scroll\<close> closure of a scrolling render at the given time stamps.
\<close>

definition analyze_frames :: "(nat \<Rightarrow> real) list \<Rightarrow> sys \<Rightarrow> sys" where
  "analyze_frames tds s = foldl (\<lambda>s td. analyze td s) s tds"

definition scroll_frames :: "real list \<Rightarrow> sys \<Rightarrow> sys" where
  "scroll_frames stamps s = foldl (\<lambda>s time. scroll time True s) s stamps"

text \<open>A constant signal whose loudness is \<open>d\<close> dB.\<close>

definition signal_at_db :: "real \<Rightarrow> nat \<Rightarrow> real" where
  "signal_at_db d = (\<lambda>i. 10 powr (d / 20))"

text \<open>
  \<open>DEFAULT_SONG\<close> of types.ts (font size 48, 30 pixels per second, threshold -35 dB),
  and a container of height 400 showing 1000 pixels of content from the top.
\<close>

definition DEFAULT_SONG :: Song where
  "DEFAULT_SONG = \<lparr>fontsize = 48, scrollspeed = 30, audioTrigger = \<lparr>threshold = - 35\<rparr>\<rparr>"

definition example_container :: viewport where
  "example_container = \<lparr>scrollTop = 0, scrollHeight = 1000, clientHeight = 400\<rparr>"

text \<open>
  A run in which the threshold changes between two sessions: the first acquisition
  resolves; the user starts the scroll, which disarms the hook; the parent passes the
  song with threshold -60; the user taps to pause, which arms the hook again; the
  second acquisition resolves with a signal at -40 dB.
\<close>

definition threshold_change_disarmed :: "event list" where
  "threshold_change_disarmed =
     [GetUserMediaResolved (\<lambda>i. 0), PlayPauseClick,
      SongUpdate (DEFAULT_SONG\<lparr>audioTrigger := \<lparr>threshold = - 60\<rparr>\<rparr>)]"

definition threshold_change_rearmed :: "event list" where
  "threshold_change_rearmed =
     threshold_change_disarmed @ [ScreenTap, GetUserMediaResolved (signal_at_db (- 40))]"

text \<open>
  A run that leaves the scroll running close to the end of the content: the first
  acquisition resolves in silence, the user scrolls by hand to offset 590 of 600 and
  starts the scroll, and the first tick runs. The same with offset 580.
\<close>

definition scrolling_near_end :: "event list" where
  "scrolling_near_end =
     [GetUserMediaResolved (\<lambda>i. 0), UserScroll 590, PlayPauseClick,
      AnimationFrame 2 1000 (\<lambda>i. 0)]"

definition scrolling_short_of_end :: "event list" where
  "scrolling_short_of_end =
     [GetUserMediaResolved (\<lambda>i. 0), UserScroll 580, PlayPauseClick,
      AnimationFrame 2 1000 (\<lambda>i. 0)]"

text \<open>
  A run in which the user starts the scroll while the first acquisition is still
  pending (the permission prompt is open, say): the acquisition then resolves with a
  signal at -50 dB, and the next animation frame analyses a signal at -45 dB.
\<close>

definition acquire_during_scroll :: "event list" where
  "acquire_during_scroll =
     [PlayPauseClick, GetUserMediaResolved (signal_at_db (- 50)),
      AnimationFrame 2 16 (signal_at_db (- 45))]"



text \<open>
  The queued callbacks that are scroll ticks, and the condition that ties them to the
  effect that starts and stops the animation: when that effect last ran for a
  scrolling render, every queued scroll tick is the one that \<open>animationRef\<close> names;
  otherwise none is queued.
\<close>

definition scroll_ticks :: "(nat \<times> callback) list \<Rightarrow> (nat \<times> callback) list" where
  "scroll_ticks q = filter (\<lambda>p. snd p \<noteq> AnalyzeCb) q"

definition ticks_owned :: "sys \<Rightarrow> bool" where
  "ticks_owned s =
     (rafNext s \<noteq> 0
      \<and> (if depsScroll s = Some True
          then animationRef s \<noteq> 0
               \<and> list_all (\<lambda>p. fst p = animationRef s) (scroll_ticks (rafQueue s))
          else scroll_ticks (rafQueue s) = []))"

text \<open>
  Two conditions on a state, used to state facts about ticks: the offset of the
  container lies in its scrollable range (the DOM keeps it there), and the height of
  the progress bar is the value that \<open>updateProgressBar\<close> would write (the scroll and
  resize listeners keep it so).
\<close>

definition in_range :: "viewport \<Rightarrow> bool" where
  "in_range c = (0 \<le> scrollTop c \<and> scrollTop c \<le> scrollHeight c - clientHeight c)"

definition bar_in_sync :: "sys \<Rightarrow> bool" where
  "bar_in_sync s = (progressBarHeight (updateProgressBar s) = progressBarHeight s)"

text \<open>The percentage that \<open>updateProgressBar\<close> writes for a container, as a function.\<close>

definition remaining_of :: "viewport \<Rightarrow> real" where
  "remaining_of c =
     100 - min 100 (max 0 ((scrollTop c / (scrollHeight c - clientHeight c)) * 100))"

section \<open>Facts about the loudness computation\<close>

lemma foldl_squares:
  "foldl (\<lambda>acc x. acc + x * x) (a::real) xs = a + sum_list (map (\<lambda>x. x\<^sup>2) xs)"
  by (induction xs arbitrary: a) (simp_all add: power2_eq_square)

lemma sumSquares_sum_list: "sumSquares xs = sum_list (map (\<lambda>x. x\<^sup>2) xs)"
  by (simp add: sumSquares_def foldl_squares)

lemma loudness_db_spec: "loudness_db xs = spec_loudness xs"
  by (simp add: loudness_db_def spec_loudness_def rms_def mean_def EPSILON_def
      sumSquares_sum_list)

lemma log10_EPSILON: "log 10 (1 / 10 ^ 7 :: real) = - 7"
proof -
  have "log 10 ((10::real) ^ 7) = real 7"
    by (rule log_pow_cancel) simp_all
  moreover have "log 10 (1 / 10 ^ 7 :: real) = - log 10 (10 ^ 7)"
    by (rule log_recip)
  ultimately show ?thesis by simp
qed

lemma sumSquares_replicate: "sumSquares (replicate n c) = real n * c\<^sup>2"
  by (simp add: sumSquares_sum_list sum_list_replicate)

lemma rms_replicate: "0 < n \<Longrightarrow> rms (replicate n c) = \<bar>c\<bar>"
  by (simp add: rms_def sumSquares_replicate)

lemma loudness_db_replicate:
  "0 < n \<Longrightarrow> loudness_db (replicate n c) = 20 * log 10 (max \<bar>c\<bar> (1 / 10 ^ 7))"
  by (simp add: loudness_db_def rms_replicate)

lemma silent_is_replicate: "\<forall>x\<in>set xs. x = 0 \<Longrightarrow> xs = replicate (length xs) 0"
  by (induction xs) simp_all

section \<open>Facts about rendering\<close>

lemma commit_step: "dirty s \<Longrightarrow> commit s = commit (render_pass s)"
  by (subst commit.simps) simp

lemma commit_done: "\<not> dirty s \<Longrightarrow> commit s = s"
  by (subst commit.simps) simp

lemma commit_clean: "\<not> dirty (commit s)"
  by (induction s rule: commit.induct) (simp add: commit.simps)

lemma commit_frame [simp]:
  "song (commit s) = song s"
  "isMonitoring (commit s) = isMonitoring s"
  "containerRef (commit s) = containerRef s"
  "error (commit s) = error s"
  "animationFrameRef (commit s) = animationFrameRef s"
  "thresholdDB (commit s) = thresholdDB s"
  by (induction s rule: commit.induct; subst commit.simps; simp)+

lemma commit_isScrolling_mono: "isScrolling s \<Longrightarrow> isScrolling (commit s)"
proof (induction s rule: commit.induct)
  case (1 s)
  show ?case
  proof (cases "dirty s")
    case True
    with 1 show ?thesis by (simp add: commit_step render_pass_isScrolling)
  next
    case False
    with 1 show ?thesis by (simp add: commit_done)
  qed
qed

lemma commit_untriggered:
  "\<not> triggered s \<Longrightarrow> isScrolling (commit s) = isScrolling s \<and> \<not> triggered (commit s)"
proof (induction s rule: commit.induct)
  case (1 s)
  show ?case
  proof (cases "dirty s")
    case True
    with 1 show ?thesis by (simp add: commit_step render_pass_isScrolling render_pass_triggered)
  next
    case False
    with 1 show ?thesis by (simp add: commit_done)
  qed
qed

lemma commit_triggered_start:
  assumes "triggered s" "\<not> isScrolling s" "depsTrigger s \<noteq> Some (True, False)"
  shows "isScrolling (commit s)"
proof -
  from assms have d: "dirty s" by (simp add: dirty_def)
  from assms have "isScrolling (render_pass s)" by (simp add: render_pass_isScrolling)
  then show ?thesis using d by (simp add: commit_step commit_isScrolling_mono)
qed

lemma render_pass_lastFrameTime:
  "lastFrameTime (render_pass s) =
     (if depsScroll s \<noteq> Some (isScrolling s) \<and> isScrolling s then 0 else lastFrameTime s)"
  by (simp add: render_pass_def Let_def scrollEffect_def requestAnimationFrame_def)

lemma commit_lastFrameTime:
  "depsScroll s \<noteq> Some True \<or> lastFrameTime s = 0 \<Longrightarrow> isScrolling (commit s)
   \<Longrightarrow> lastFrameTime (commit s) = 0"
proof (induction s rule: commit.induct)
  case (1 s)
  show ?case
  proof (cases "dirty s")
    case True
    have "depsScroll (render_pass s) \<noteq> Some True \<or> lastFrameTime (render_pass s) = 0"
      using "1.prems"(1) by (auto simp: render_pass_lastFrameTime)
    with 1 True show ?thesis by (simp add: commit_step)
  next
    case False
    with 1 show ?thesis by (auto simp add: commit_done dirty_def)
  qed
qed

lemma shouldMonitor_commit: "\<not> shouldMonitor s \<Longrightarrow> \<not> shouldMonitor (commit s)"
  using commit_isScrolling_mono [of s] by (auto simp: shouldMonitor_def)

lemma commit_trigger_cleared:
  "triggered s \<Longrightarrow> \<not> triggered (commit s) \<Longrightarrow> \<not> shouldMonitor (commit s)"
proof (induction s rule: commit.induct)
  case (1 s)
  show ?case
  proof (cases "dirty s")
    case True
    show ?thesis
    proof (cases "triggered (render_pass s)")
      case t: True
      with 1 True show ?thesis by (simp add: commit_step)
    next
      case f: False
      with "1.prems" have "\<not> shouldMonitor s" by (auto simp: render_pass_triggered)
      then have "\<not> shouldMonitor (render_pass s)"
        by (auto simp: shouldMonitor_def render_pass_isScrolling)
      then show ?thesis using True by (simp add: commit_step shouldMonitor_commit)
    qed
  next
    case False
    with 1 show ?thesis by (simp add: commit_done)
  qed
qed

section \<open>Facts about the handlers\<close>

lemma getFloatTimeDomainData_const:
  "getFloatTimeDomainData (\<lambda>i. c) = replicate frequencyBinCount c"
  by (simp add: getFloatTimeDomainData_def map_replicate_const)

lemma loudness_const:
  "loudness_db (getFloatTimeDomainData (\<lambda>i. c)) = 20 * log 10 (max \<bar>c\<bar> (1 / 10 ^ 7))"
  by (simp add: getFloatTimeDomainData_const loudness_db_replicate frequencyBinCount_def fftSize_def)

lemma loudness_silence [simp]: "loudness_db (getFloatTimeDomainData (\<lambda>i. 0)) = - 140"
  using log10_EPSILON by (simp add: loudness_const)

lemma loudness_signal_at_db [simp]:
  assumes "- 140 \<le> d"
  shows "loudness_db (getFloatTimeDomainData (signal_at_db d)) = d"
proof -
  have "(10::real) powr (- 7) \<le> 10 powr (d / 20)"
    using assms by (intro powr_mono) simp_all
  moreover have "(10::real) powr (- 7) = 1 / 10 ^ 7"
    by (simp add: powr_minus_divide powr_numeral)
  ultimately have "max \<bar>10 powr (d / 20)\<bar> (1 / 10 ^ 7) = (10::real) powr (d / 20)"
    by simp
  then show ?thesis
    unfolding signal_at_db_def loudness_const by (simp add: log_powr)
qed

lemma handle_frame [simp]:
  "thresholdDB (handle e s) = thresholdDB s"
  "depsMonitor (handle e s) = depsMonitor s"
  "depsTrigger (handle e s) = depsTrigger s"
  "depsScroll (handle e s) = depsScroll s"
  "depsProgress (handle e s) = depsProgress s"
  by (simp_all add: handle_def run_callback_def split: event.splits option.splits callback.splits)

lemma analyze_triggered:
  "triggered (analyze td s) =
     (triggered s \<or> (analyserRef s \<and> loudness_db (getFloatTimeDomainData td) > thresholdDB s))"
  by (simp add: analyze_def requestAnimationFrame_def Let_def)

lemma handle_triggered_mono: "triggered s \<Longrightarrow> triggered (handle e s)"
  by (simp add: handle_def run_callback_def analyze_triggered startMonitoring_resolved_def Let_def
      split: event.splits option.splits callback.splits)

lemma analyze_frames_simps [simp]:
  "analyze_frames [] s = s"
  "analyze_frames (td # tds) s = analyze_frames tds (analyze td s)"
  by (simp_all add: analyze_frames_def)

lemma analyze_frames_triggered_mono: "triggered s \<Longrightarrow> triggered (analyze_frames tds s)"
  by (induction tds arbitrary: s) (simp_all add: analyze_triggered)

lemma analyze_frames_crossing:
  "analyserRef s \<Longrightarrow> td \<in> set tds
   \<Longrightarrow> thresholdDB s < loudness_db (getFloatTimeDomainData td)
   \<Longrightarrow> triggered (analyze_frames tds s)"
proof (induction tds arbitrary: s)
  case Nil
  then show ?case by simp
next
  case (Cons a tds)
  show ?case
  proof (cases "a = td")
    case True
    with Cons.prems have "triggered (analyze a s)" by (simp add: analyze_triggered)
    then show ?thesis by (simp add: analyze_frames_triggered_mono)
  next
    case False
    with Cons.prems have "td \<in> set tds" by simp
    with Cons.IH [of "analyze a s"] Cons.prems show ?thesis by simp
  qed
qed

lemma commit_triggered_only: "triggered (commit s) \<Longrightarrow> triggered s"
proof (induction s rule: commit.induct)
  case (1 s)
  show ?case
  proof (cases "dirty s")
    case True
    with 1 have "triggered (render_pass s)" by (simp add: commit_step)
    then show ?thesis by (simp add: render_pass_triggered)
  next
    case False
    with 1 show ?thesis by (simp add: commit_done)
  qed
qed

lemma startMonitoring_resolved_triggered:
  "triggered (startMonitoring_resolved td s) =
     (triggered s \<or> thresholdDB s < loudness_db (getFloatTimeDomainData td))"
  by (simp add: startMonitoring_resolved_def Let_def analyze_triggered)

lemma handle_triggered_only:
  assumes "\<not> triggered s" "triggered (handle e s)"
  shows "\<exists>td. thresholdDB s < loudness_db (getFloatTimeDomainData td)
            \<and> (e = GetUserMediaResolved td \<or> (\<exists>i time. e = AnimationFrame i time td))"
proof (cases e)
  case (GetUserMediaResolved td)
  with assms show ?thesis
    by (auto simp: handle_def startMonitoring_resolved_triggered split: if_splits)
next
  case (AnimationFrame i time td)
  with assms show ?thesis
    by (auto simp: handle_def run_callback_def analyze_triggered
        split: option.splits callback.splits)
qed (use assms in \<open>auto simp: handle_def split: if_splits\<close>)

section \<open>Evaluating concrete runs\<close>

lemmas eval_defs = DEFAULT_SONG_def example_container_def mount_def initial_def commit.simps
  dirty_def render_pass_def shouldMonitor_def monitorEffect_def monitorCleanup_def
  startMonitoring_def stopMonitoring_def scrollEffect_def scrollCleanup_def triggerEffect_def
  updateProgressBar_def requestAnimationFrame_def cancelAnimationFrame_def Let_def
  step_def handle_def run_def run_callback_def analyze_def scroll_def set_scrollTop_def
  startMonitoring_resolved_def startMonitoring_rejected_def

section \<open>The loudness, the trigger flag, acquisition failures and the threshold\<close>

lemma analyze_currentDB:
  "currentDB (analyze td s) =
     (if analyserRef s then loudness_db (getFloatTimeDomainData td) else currentDB s)"
  by (simp add: analyze_def requestAnimationFrame_def Let_def)

lemma silent_signal:
  "\<forall>i<frequencyBinCount. td i = 0 \<Longrightarrow> \<forall>x\<in>set (getFloatTimeDomainData td). x = 0"
  by (auto simp: getFloatTimeDomainData_def)

lemma getFloatTimeDomainData_length: "length (getFloatTimeDomainData td) = 128"
  by (simp add: getFloatTimeDomainData_def frequencyBinCount_def fftSize_def)

text \<open>
  C2. For every analysis buffer of n > 0 raw samples the loudness that \<open>analyze\<close>
  computes is 20 * log10 (max (sqrt (mean (sample * sample))) 1e-7): the argument of the
  logarithm is positive, and for an all-zero buffer the result is 20 * log10 1e-7,
  that is -140. With the analyser set, the value that \<open>analyze\<close> emits as \<open>currentDB\<close> is
  this loudness of the 128 samples it reads, and 20 * log10 1e-7 for a silent signal.
\<close>

theorem C2_loudness_formula:
  "(dataArray \<noteq> [] \<longrightarrow>
      loudness_db dataArray = spec_loudness dataArray
      \<and> 0 < max (rms dataArray) (1 / 10 ^ 7)
      \<and> ((\<forall>x\<in>set dataArray. x = 0) \<longrightarrow>
            loudness_db dataArray = 20 * log 10 EPSILON \<and> loudness_db dataArray = - 140))
   \<and> (analyserRef s \<longrightarrow>
        length (getFloatTimeDomainData td) = 128
        \<and> currentDB (analyze td s) = spec_loudness (getFloatTimeDomainData td)
        \<and> ((\<forall>i<frequencyBinCount. td i = 0) \<longrightarrow>
              currentDB (analyze td s) = 20 * log 10 EPSILON))"
proof -
  have silent: "loudness_db xs = 20 * log 10 EPSILON \<and> loudness_db xs = - 140"
    if ne: "xs \<noteq> []" and z: "\<forall>x\<in>set xs. x = 0" for xs
  proof -
    from ne have len: "0 < length xs" by simp
    have "loudness_db xs = loudness_db (replicate (length xs) 0)"
      using silent_is_replicate [OF z] by simp
    also have "\<dots> = 20 * log 10 (1 / 10 ^ 7)"
      using len by (simp add: loudness_db_replicate)
    finally have e: "loudness_db xs = 20 * log 10 (1 / 10 ^ 7)" .
    show ?thesis
      unfolding EPSILON_def e log10_EPSILON by simp
  qed
  have pos: "0 < max (rms dataArray) (1 / 10 ^ 7)"
    by (simp add: less_max_iff_disj)
  have spec: "loudness_db xs = spec_loudness xs" for xs
    by (rule loudness_db_spec)
  have ne: "getFloatTimeDomainData td \<noteq> []"
    using getFloatTimeDomainData_length [of td] by auto
  have emit: "currentDB (analyze td s) = spec_loudness (getFloatTimeDomainData td)"
    if "analyserRef s"
    using that by (simp add: analyze_currentDB spec)
  have quiet: "currentDB (analyze td s) = 20 * log 10 EPSILON"
    if a: "analyserRef s" and z: "\<forall>i<frequencyBinCount. td i = 0"
  proof -
    from z have "\<forall>x\<in>set (getFloatTimeDomainData td). x = 0" by (rule silent_signal)
    with ne have "loudness_db (getFloatTimeDomainData td) = 20 * log 10 EPSILON"
      using silent by blast
    with a show ?thesis by (simp add: analyze_currentDB)
  qed
  from silent [of dataArray] pos spec [of dataArray] emit quiet
    getFloatTimeDomainData_length [of td]
  show ?thesis by blast
qed

theorem C2_loudness_formula_witness:
  "[0, 0, 0] \<noteq> ([] :: real list)
   \<and> loudness_db [0, 0, 0] = spec_loudness [0, 0, 0]
   \<and> loudness_db [0, 0, 0] = 20 * log 10 EPSILON
   \<and> loudness_db [0, 0, 0] = - 140
   \<and> analyserRef (run [GetUserMediaResolved (signal_at_db (- 50))]
        (mount DEFAULT_SONG example_container))
   \<and> currentDB (analyze (\<lambda>i. 0) (run [GetUserMediaResolved (signal_at_db (- 50))]
        (mount DEFAULT_SONG example_container))) = 20 * log 10 EPSILON
   \<and> currentDB (analyze (\<lambda>i. 0) (run [GetUserMediaResolved (signal_at_db (- 50))]
        (mount DEFAULT_SONG example_container))) = spec_loudness (getFloatTimeDomainData (\<lambda>i. 0))"
proof -
  let ?s = "run [GetUserMediaResolved (signal_at_db (- 50))] (mount DEFAULT_SONG example_container)"
  have a: "analyserRef ?s" by (simp add: eval_defs)
  note t = C2_loudness_formula [of "[0, 0, 0]" ?s "\<lambda>i. 0"]
  from t have 1: "loudness_db [0, 0, 0] = spec_loudness [0, 0, 0]"
    "loudness_db [0, 0, 0] = 20 * log 10 EPSILON" "loudness_db [0, 0, 0] = - 140"
    by simp_all
  from t a have 2: "currentDB (analyze (\<lambda>i. 0) ?s) = 20 * log 10 EPSILON"
    "currentDB (analyze (\<lambda>i. 0) ?s) = spec_loudness (getFloatTimeDomainData (\<lambda>i. 0))"
    by simp_all
  from a 1 2 show ?thesis by simp
qed

text \<open>
  What holds of the latching on the code. Within an armed session (the analyser is
  set), once a sample whose loudness exceeds the threshold that \<open>analyze\<close> compares
  with has been analysed, the flag is true after every later sample, whatever its
  loudness; a flag that is true stays true under \<open>analyze\<close>; a flag that was false is
  true after a sample only if that sample crossed the threshold; the hook's effect for
  \<open>enabled = false\<close> clears the flag. Over all events of the mounted component, the flag
  goes from true to false only in a step after which the hook is disarmed, and from
  false to true only in a step that analyses a sample above the threshold.
\<close>

lemma trigger_flag_latches:
  "(analyserRef s \<and> td \<in> set tds \<and> thresholdDB s < loudness_db (getFloatTimeDomainData td)
      \<longrightarrow> triggered (analyze_frames tds s))
   \<and> (triggered s \<longrightarrow> triggered (analyze_frames tds s))
   \<and> (\<not> triggered s \<and> triggered (analyze td s)
      \<longrightarrow> thresholdDB s < loudness_db (getFloatTimeDomainData td))
   \<and> \<not> triggered (monitorEffect False s)
   \<and> (triggered s \<and> \<not> triggered (step e s) \<longrightarrow> depsMonitor (step e s) = Some False)
   \<and> (\<not> triggered s \<and> triggered (step e s) \<longrightarrow>
        (\<exists>sample. thresholdDB s < loudness_db (getFloatTimeDomainData sample)
           \<and> (e = GetUserMediaResolved sample
                \<or> (\<exists>i time. e = AnimationFrame i time sample))))"
proof -
  have rise: "\<exists>sample. thresholdDB s < loudness_db (getFloatTimeDomainData sample)
           \<and> (e = GetUserMediaResolved sample \<or> (\<exists>i time. e = AnimationFrame i time sample))"
    if f: "\<not> triggered s" and t: "triggered (step e s)"
  proof -
    from t have "triggered (handle e s)"
      unfolding step_def by (rule commit_triggered_only)
    with f show ?thesis by (rule handle_triggered_only)
  qed
  have drop: "depsMonitor (step e s) = Some False" if t: "triggered s" and n: "\<not> triggered (step e s)"
  proof -
    from t have "triggered (handle e s)" by (rule handle_triggered_mono)
    with n have "\<not> shouldMonitor (step e s)"
      unfolding step_def using commit_trigger_cleared by blast
    moreover have "\<not> dirty (step e s)"
      unfolding step_def by (rule commit_clean)
    ultimately show ?thesis by (simp add: dirty_def)
  qed
  have latch: "triggered (analyze_frames tds s)"
    if "analyserRef s" "td \<in> set tds" "thresholdDB s < loudness_db (getFloatTimeDomainData td)"
    using that by (rule analyze_frames_crossing)
  have keep: "triggered (analyze_frames tds s)" if "triggered s"
    using that by (rule analyze_frames_triggered_mono)
  have cross: "thresholdDB s < loudness_db (getFloatTimeDomainData td)"
    if "\<not> triggered s" "triggered (analyze td s)"
    using that by (simp add: analyze_triggered)
  have clear: "\<not> triggered (monitorEffect False s)"
    by simp
  from latch keep cross clear drop rise show ?thesis
    by blast
qed

lemma trigger_flag_latches_example:
  "analyserRef (run [GetUserMediaResolved (signal_at_db (- 50))] (mount DEFAULT_SONG example_container))
   \<and> thresholdDB (run [GetUserMediaResolved (signal_at_db (- 50))] (mount DEFAULT_SONG example_container)) = - 35
   \<and> \<not> triggered (run [GetUserMediaResolved (signal_at_db (- 50))] (mount DEFAULT_SONG example_container))
   \<and> \<not> triggered (analyze_frames [signal_at_db (- 40)]
         (run [GetUserMediaResolved (signal_at_db (- 50))] (mount DEFAULT_SONG example_container)))
   \<and> triggered (analyze_frames [signal_at_db (- 40), signal_at_db (- 30), signal_at_db (- 45)]
         (run [GetUserMediaResolved (signal_at_db (- 50))] (mount DEFAULT_SONG example_container)))
   \<and> \<not> triggered (monitorEffect False (analyze_frames [signal_at_db (- 40), signal_at_db (- 30), signal_at_db (- 45)]
         (run [GetUserMediaResolved (signal_at_db (- 50))] (mount DEFAULT_SONG example_container))))"
  using trigger_flag_latches [of "run [GetUserMediaResolved (signal_at_db (- 50))] (mount DEFAULT_SONG example_container)"
      "signal_at_db (- 30)" "[signal_at_db (- 40), signal_at_db (- 30), signal_at_db (- 45)]" ArmClick]
  by (simp add: eval_defs)

lemma step_thresholdDB [simp]: "thresholdDB (step e s) = thresholdDB s"
  by (simp add: step_def)

lemma run_thresholdDB [simp]: "thresholdDB (run es s) = thresholdDB s"
  unfolding run_def by (induction es arbitrary: s) simp_all

lemma mount_thresholdDB [simp]: "thresholdDB (mount sg c) = threshold (audioTrigger sg)"
  by (simp add: mount_def initial_def)

lemma step_clean: "\<not> dirty (step e s)"
  by (simp add: step_def commit_clean)

lemma startMonitoring_rejected_dirty:
  "dirty (startMonitoring_rejected s) = dirty s"
  by (simp add: dirty_def shouldMonitor_def)

lemma step_rejected:
  assumes "\<not> dirty s" "0 < acquiring s"
  shows "step GetUserMediaRejected s = startMonitoring_rejected s"
  using assms by (simp add: step_def handle_def commit_done startMonitoring_rejected_dirty)

lemma step_PlayPauseClick_untriggered:
  "\<not> triggered s \<Longrightarrow> isScrolling (step PlayPauseClick s) = (\<not> isScrolling s)"
  using commit_untriggered [of "handle PlayPauseClick s"]
  by (simp add: step_def handle_def)

text \<open>
  C8. When the acquisition of the audio device fails while the component is at rest,
  the hook surfaces the message "Microphone access denied." and nothing else of the
  state changes: the trigger flag, the analyser, the scroll state, the container and
  the queued animation frames are what they were, so a flag that was false is still
  false. The component goes on: with the flag false, a click on the play/pause button
  after the failure toggles the scroll state.
\<close>

theorem C8_acquisition_failure:
  assumes "\<not> dirty s" "0 < acquiring s"
  shows "step GetUserMediaRejected s
           = s\<lparr>acquiring := acquiring s - 1, error := Some ''Microphone access denied.''\<rparr>
       \<and> error (step GetUserMediaRejected s) = Some ''Microphone access denied.''
       \<and> triggered (step GetUserMediaRejected s) = triggered s
       \<and> analyserRef (step GetUserMediaRejected s) = analyserRef s
       \<and> isScrolling (step GetUserMediaRejected s) = isScrolling s
       \<and> containerRef (step GetUserMediaRejected s) = containerRef s
       \<and> rafQueue (step GetUserMediaRejected s) = rafQueue s
       \<and> (\<not> triggered s \<longrightarrow>
            isScrolling (step PlayPauseClick (step GetUserMediaRejected s)) = (\<not> isScrolling s))"
proof -
  have eq: "step GetUserMediaRejected s = startMonitoring_rejected s"
    using assms by (rule step_rejected)
  have "isScrolling (step PlayPauseClick (startMonitoring_rejected s)) = (\<not> isScrolling s)"
    if "\<not> triggered s"
    using that step_PlayPauseClick_untriggered [of "startMonitoring_rejected s"] by simp
  then show ?thesis
    unfolding eq by (simp add: startMonitoring_rejected_def)
qed

theorem C8_acquisition_failure_witness:
  "\<not> dirty (mount DEFAULT_SONG example_container)
   \<and> 0 < acquiring (mount DEFAULT_SONG example_container)
   \<and> error (mount DEFAULT_SONG example_container) = None
   \<and> error (step GetUserMediaRejected (mount DEFAULT_SONG example_container))
       = Some ''Microphone access denied.''
   \<and> \<not> triggered (step GetUserMediaRejected (mount DEFAULT_SONG example_container))
   \<and> \<not> isScrolling (step GetUserMediaRejected (mount DEFAULT_SONG example_container))
   \<and> isScrolling (step PlayPauseClick
        (step GetUserMediaRejected (mount DEFAULT_SONG example_container)))"
proof -
  have h: "\<not> dirty (mount DEFAULT_SONG example_container)"
    "0 < acquiring (mount DEFAULT_SONG example_container)"
    "\<not> triggered (mount DEFAULT_SONG example_container)"
    "\<not> isScrolling (mount DEFAULT_SONG example_container)"
    "error (mount DEFAULT_SONG example_container) = None"
    by (simp_all add: eval_defs)
  note t = C8_acquisition_failure [OF h(1) h(2)]
  from t have e: "error (step GetUserMediaRejected (mount DEFAULT_SONG example_container))
      = Some ''Microphone access denied.''"
    by blast
  from t h(3) have tr: "\<not> triggered (step GetUserMediaRejected (mount DEFAULT_SONG example_container))"
    by blast
  from t h(4) have sc: "\<not> isScrolling (step GetUserMediaRejected (mount DEFAULT_SONG example_container))"
    by blast
  from t h(3) h(4) have pl: "isScrolling (step PlayPauseClick
        (step GetUserMediaRejected (mount DEFAULT_SONG example_container)))"
    by blast
  from h e tr sc pl show ?thesis
    by blast
qed

text \<open>
  C10, as amended. In every state that the mounted component reaches, through any
  events (updates of the song, disarming and arming again included), the threshold
  that \<open>analyze\<close> compares a sample with is the threshold of the song of the first
  render: a sample sets the trigger flag exactly when the analyser is set and its
  loudness exceeds that first threshold.
\<close>

theorem C10_threshold_of_first_render:
  "thresholdDB (run es (mount sg c)) = threshold (audioTrigger sg)
   \<and> triggered (analyze td (run es (mount sg c)))
       = (triggered (run es (mount sg c))
          \<or> (analyserRef (run es (mount sg c))
              \<and> threshold (audioTrigger sg) < loudness_db (getFloatTimeDomainData td)))"
  by (simp add: analyze_triggered)

theorem C10_threshold_of_first_render_witness:
  "thresholdDB (run threshold_change_rearmed (mount DEFAULT_SONG example_container)) = - 35
   \<and> threshold (audioTrigger (song
         (run threshold_change_rearmed (mount DEFAULT_SONG example_container)))) = - 60
   \<and> \<not> triggered (analyze (signal_at_db (- 40))
         (run threshold_change_rearmed (mount DEFAULT_SONG example_container)))
   \<and> triggered (analyze (signal_at_db (- 30))
         (run threshold_change_rearmed (mount DEFAULT_SONG example_container)))"
  using C10_threshold_of_first_render [of threshold_change_rearmed DEFAULT_SONG
      example_container "signal_at_db (- 40)"]
    C10_threshold_of_first_render [of threshold_change_rearmed DEFAULT_SONG
      example_container "signal_at_db (- 30)"]
  by (simp add: eval_defs threshold_change_rearmed_def threshold_change_disarmed_def)

text \<open>
  C10 as stated fails. The component mounts with threshold -35; while the hook is
  disarmed by the scroll, the threshold becomes -60; the pause arms the hook again, so
  -60 is the threshold in effect when this monitoring starts. The first sample of the
  new session is at -40 dB, above -60, and the flag stays false and no scroll starts:
  the sample was compared with -35.
\<close>

theorem C10_threshold_counterexample:
  "\<not> analyserRef (run threshold_change_disarmed (mount DEFAULT_SONG example_container))
   \<and> depsMonitor (run threshold_change_disarmed (mount DEFAULT_SONG example_container))
       = Some False
   \<and> threshold (audioTrigger (song
         (run threshold_change_disarmed (mount DEFAULT_SONG example_container)))) = - 60
   \<and> depsMonitor (run threshold_change_rearmed (mount DEFAULT_SONG example_container))
       = Some True
   \<and> analyserRef (run threshold_change_rearmed (mount DEFAULT_SONG example_container))
   \<and> threshold (audioTrigger (song
         (run threshold_change_rearmed (mount DEFAULT_SONG example_container)))) = - 60
   \<and> currentDB (run threshold_change_rearmed (mount DEFAULT_SONG example_container)) = - 40
   \<and> \<not> triggered (run threshold_change_rearmed (mount DEFAULT_SONG example_container))
   \<and> \<not> isScrolling (run threshold_change_rearmed (mount DEFAULT_SONG example_container))"
  by (simp add: eval_defs threshold_change_rearmed_def threshold_change_disarmed_def)

section \<open>Facts about the scroll tick\<close>

lemma updateProgressBar_containerRef [simp]:
  "containerRef (updateProgressBar s) = containerRef s"
  by simp

lemma scroll_lastFrameTime [simp]: "lastFrameTime (scroll time captured s) = time"
  by (simp add: scroll_def requestAnimationFrame_def Let_def)

lemma scroll_containerRef:
  "containerRef (scroll time captured s) =
     (if scrollspeed (song s)
           * ((time - (if lastFrameTime s = 0 then time else lastFrameTime s)) / 1000) > 0
      then set_scrollTop
             (scrollTop (containerRef s)
               + scrollspeed (song s)
                 * ((time - (if lastFrameTime s = 0 then time else lastFrameTime s)) / 1000))
             (containerRef s)
      else containerRef s)"
  by (simp add: scroll_def requestAnimationFrame_def Let_def)

lemma scroll_first_tick: "lastFrameTime s = 0 \<Longrightarrow> containerRef (scroll time captured s) = containerRef s"
  by (simp add: scroll_containerRef)

lemma step_starts_scroll:
  assumes "\<not> dirty s" "\<not> isScrolling s" "isScrolling (step e s)"
  shows "lastFrameTime (step e s) = 0"
proof -
  from assms(1,2) have "depsScroll s = Some False" by (simp add: dirty_def)
  then have "depsScroll (handle e s) \<noteq> Some True" by simp
  with assms(3) show ?thesis
    unfolding step_def by (simp add: commit_lastFrameTime)
qed

text \<open>
  C3. One tick of the scroll loop, on a container whose offset lies in its scrollable
  range. When the tick is not the first one (the time of the previous tick is stored),
  time has not gone backwards and the speed is positive, the offset after the tick is
  min (maxOffset, previousOffset + speed * dt), where dt is the time since the previous
  tick in seconds and maxOffset is scrollHeight - clientHeight. On the first tick (no
  previous time stored) the container is unchanged, and every tick stores its time for
  the next one. Whenever a step takes the component at rest from not scrolling to
  scrolling, a pause followed by a resume included, the stored time is reset, so the
  tick that follows is a first tick.
\<close>

theorem C3_tick_advance:
  assumes "0 \<le> scrollTop (containerRef s)"
    and "scrollTop (containerRef s) \<le> scrollHeight (containerRef s) - clientHeight (containerRef s)"
  shows "(lastFrameTime s \<noteq> 0 \<and> lastFrameTime s \<le> time \<and> 0 < scrollspeed (song s) \<longrightarrow>
           scrollTop (containerRef (scroll time captured s))
             = min (scrollHeight (containerRef s) - clientHeight (containerRef s))
                 (scrollTop (containerRef s)
                   + scrollspeed (song s) * ((time - lastFrameTime s) / 1000)))
       \<and> (lastFrameTime s = 0 \<longrightarrow> containerRef (scroll time captured s) = containerRef s)
       \<and> lastFrameTime (scroll time captured s) = time
       \<and> (\<not> dirty s0 \<and> \<not> isScrolling s0 \<and> isScrolling (step e s0) \<longrightarrow>
            lastFrameTime (step e s0) = 0)"
proof -
  have adv: "scrollTop (containerRef (scroll time captured s))
             = min (scrollHeight (containerRef s) - clientHeight (containerRef s))
                 (scrollTop (containerRef s)
                   + scrollspeed (song s) * ((time - lastFrameTime s) / 1000))"
    if h: "lastFrameTime s \<noteq> 0" "lastFrameTime s \<le> time" "0 < scrollspeed (song s)"
  proof -
    from h have m: "0 \<le> scrollspeed (song s) * ((time - lastFrameTime s) / 1000)"
      by simp
    show ?thesis
      using h(1) m assms by (auto simp: scroll_containerRef set_scrollTop_def min_def max_def)
  qed
  show ?thesis
    using adv step_starts_scroll by (simp add: scroll_first_tick)
qed

theorem C3_tick_advance_witness:
  "scrollTop (containerRef (scroll 2000 True
       (run [PlayPauseClick, AnimationFrame 1 1000 (\<lambda>i. 0)]
          (mount DEFAULT_SONG example_container)))) = 30
   \<and> containerRef (scroll 1000 True (run [PlayPauseClick] (mount DEFAULT_SONG example_container)))
       = example_container
   \<and> lastFrameTime (scroll 1000 True (run [PlayPauseClick] (mount DEFAULT_SONG example_container)))
       = 1000
   \<and> lastFrameTime (step PlayPauseClick
        (run [PlayPauseClick, AnimationFrame 1 1000 (\<lambda>i. 0), AnimationFrame 2 2000 (\<lambda>i. 0),
              ScreenTap] (mount DEFAULT_SONG example_container))) = 0"
proof -
  let ?m = "mount DEFAULT_SONG example_container"
  let ?a = "run [PlayPauseClick, AnimationFrame 1 1000 (\<lambda>i. 0)] ?m"
  let ?b = "run [PlayPauseClick] ?m"
  let ?c = "run [PlayPauseClick, AnimationFrame 1 1000 (\<lambda>i. 0), AnimationFrame 2 2000 (\<lambda>i. 0),
              ScreenTap] ?m"
  have a: "containerRef ?a = example_container" "lastFrameTime ?a = 1000"
    "scrollspeed (song ?a) = 30"
    by (simp_all add: eval_defs)
  have b: "containerRef ?b = example_container" "lastFrameTime ?b = 0"
    by (simp_all add: eval_defs)
  have c: "\<not> dirty ?c" "\<not> isScrolling ?c" "isScrolling (step PlayPauseClick ?c)"
    by (simp_all add: eval_defs)
  have 1: "scrollTop (containerRef (scroll 2000 True ?a)) = 30"
    using C3_tick_advance [of ?a 2000 True ?c PlayPauseClick] a
    by (simp add: example_container_def)
  have 2: "containerRef (scroll 1000 True ?b) = example_container"
    "lastFrameTime (scroll 1000 True ?b) = 1000"
    using C3_tick_advance [of ?b 1000 True ?c PlayPauseClick] b
    by (simp_all add: example_container_def)
  have 3: "lastFrameTime (step PlayPauseClick ?c) = 0"
    using C3_tick_advance [of ?b 1000 True ?c PlayPauseClick] b c
    by (simp add: example_container_def)
  from 1 2 3 show ?thesis by simp
qed

section \<open>Facts about sequences of ticks\<close>

lemma scroll_frames_simps [simp]:
  "scroll_frames [] s = s"
  "scroll_frames (t # ts) s = scroll_frames ts (scroll t True s)"
  by (simp_all add: scroll_frames_def)

lemma scroll_frames_append: "scroll_frames (ts @ us) s = scroll_frames us (scroll_frames ts s)"
  by (simp add: scroll_frames_def)

lemma updateProgressBar_height:
  "progressBarHeight (updateProgressBar s) =
     (if scrollHeight (containerRef s) - clientHeight (containerRef s) > 0
      then remaining_of (containerRef s) else progressBarHeight s)"
  by (simp add: updateProgressBar_def remaining_of_def Let_def)

lemma bar_in_sync_iff:
  "bar_in_sync s =
     (scrollHeight (containerRef s) - clientHeight (containerRef s) > 0
        \<longrightarrow> progressBarHeight s = remaining_of (containerRef s))"
  by (auto simp add: bar_in_sync_def updateProgressBar_height)

lemma scroll_progressBarHeight:
  "progressBarHeight (scroll time captured s) =
     (if scrollspeed (song s)
           * ((time - (if lastFrameTime s = 0 then time else lastFrameTime s)) / 1000) > 0
         \<and> scrollHeight (containerRef s) - clientHeight (containerRef s) > 0
      then remaining_of (containerRef (scroll time captured s))
      else progressBarHeight s)"
  by (simp add: scroll_def requestAnimationFrame_def Let_def updateProgressBar_height
      set_scrollTop_def)

lemma set_scrollTop_forward:
  assumes "in_range c" "0 < mv"
  shows "scrollTop c \<le> scrollTop (set_scrollTop (scrollTop c + mv) c)"
    and "in_range (set_scrollTop (scrollTop c + mv) c)"
  using assms by (simp_all add: in_range_def set_scrollTop_def min_def max_def)

lemma set_scrollTop_dims [simp]:
  "scrollHeight (set_scrollTop y c) = scrollHeight c"
  "clientHeight (set_scrollTop y c) = clientHeight c"
  by (simp_all add: set_scrollTop_def)

lemma remaining_antimono:
  assumes "0 < scrollHeight c - clientHeight c" "scrollTop c \<le> scrollTop c'"
    "scrollHeight c' = scrollHeight c" "clientHeight c' = clientHeight c"
  shows "remaining_of c' \<le> remaining_of c"
proof -
  from assms(1,2)
  have "scrollTop c / (scrollHeight c - clientHeight c) * 100
        \<le> scrollTop c' / (scrollHeight c - clientHeight c) * 100"
    by (simp add: divide_right_mono)
  then show ?thesis
    unfolding remaining_of_def assms(3,4) by (simp add: min_def max_def)
qed

lemma scroll_tick_monotone:
  assumes "in_range (containerRef s)" "bar_in_sync s"
  shows "in_range (containerRef (scroll time captured s))
       \<and> bar_in_sync (scroll time captured s)
       \<and> scrollTop (containerRef s) \<le> scrollTop (containerRef (scroll time captured s))
       \<and> progressBarHeight (scroll time captured s) \<le> progressBarHeight s"
proof -
  let ?c = "containerRef s"
  define mv where "mv = scrollspeed (song s)
               * ((time - (if lastFrameTime s = 0 then time else lastFrameTime s)) / 1000)"
  have cont: "containerRef (scroll time captured s)
              = (if mv > 0 then set_scrollTop (scrollTop ?c + mv) ?c else ?c)"
    unfolding mv_def by (rule scroll_containerRef)
  have bar: "progressBarHeight (scroll time captured s)
             = (if mv > 0 \<and> scrollHeight ?c - clientHeight ?c > 0
                then remaining_of (containerRef (scroll time captured s))
                else progressBarHeight s)"
    unfolding mv_def by (rule scroll_progressBarHeight)
  show ?thesis
  proof (cases "mv > 0")
    case False
    with cont bar assms show ?thesis
      by (simp add: bar_in_sync_iff)
  next
    case True
    let ?c' = "set_scrollTop (scrollTop ?c + mv) ?c"
    from True cont have c: "containerRef (scroll time captured s) = ?c'" by simp
    note fw = set_scrollTop_forward [OF assms(1) True]
    have sync: "bar_in_sync (scroll time captured s)"
      using True assms(2) by (simp add: bar_in_sync_iff bar c)
    have le: "progressBarHeight (scroll time captured s) \<le> progressBarHeight s"
    proof (cases "scrollHeight ?c - clientHeight ?c > 0")
      case m: True
      from assms(2) m have "progressBarHeight s = remaining_of ?c"
        by (simp add: bar_in_sync_iff)
      moreover from m True have "progressBarHeight (scroll time captured s) = remaining_of ?c'"
        by (simp add: bar c)
      moreover have "remaining_of ?c' \<le> remaining_of ?c"
        using m fw(1) by (rule remaining_antimono) simp_all
      ultimately show ?thesis by simp
    next
      case m: False
      then show ?thesis by (simp add: bar)
    qed
    from c fw sync le show ?thesis by simp
  qed
qed

lemma scroll_frames_invariant:
  "in_range (containerRef s) \<Longrightarrow> bar_in_sync s
   \<Longrightarrow> in_range (containerRef (scroll_frames ts s)) \<and> bar_in_sync (scroll_frames ts s)"
  by (induction ts arbitrary: s) (simp_all add: scroll_tick_monotone)

lemma scroll_frames_monotone:
  "in_range (containerRef s) \<Longrightarrow> bar_in_sync s
   \<Longrightarrow> scrollTop (containerRef s) \<le> scrollTop (containerRef (scroll_frames ts s))
     \<and> progressBarHeight (scroll_frames ts s) \<le> progressBarHeight s"
proof (induction ts arbitrary: s)
  case Nil
  then show ?case by simp
next
  case (Cons t ts)
  from scroll_tick_monotone [OF Cons.prems, of t True]
  have 1: "in_range (containerRef (scroll t True s))" "bar_in_sync (scroll t True s)"
    "scrollTop (containerRef s) \<le> scrollTop (containerRef (scroll t True s))"
    "progressBarHeight (scroll t True s) \<le> progressBarHeight s"
    by simp_all
  from Cons.IH [OF 1(1) 1(2)] 1(3) 1(4) show ?case by simp
qed

text \<open>
  C9, as amended. Over any sequence of ticks of the scroll loop, from a state whose
  offset lies in the scrollable range and whose progress bar shows the current
  position, the offset after more ticks is at least the offset after fewer ticks (the
  loop never scrolls backward), and the reported progress, which is the percentage of
  content remaining, after more ticks is at most the one after fewer ticks: it is
  monotonically non-increasing.
\<close>

theorem C9_offset_and_bar_monotone:
  assumes "in_range (containerRef s)" and "bar_in_sync s"
  shows "scrollTop (containerRef (scroll_frames ts s))
           \<le> scrollTop (containerRef (scroll_frames (ts @ us) s))
       \<and> progressBarHeight (scroll_frames (ts @ us) s)
           \<le> progressBarHeight (scroll_frames ts s)"
  using scroll_frames_invariant [OF assms, of ts]
    scroll_frames_monotone [of "scroll_frames ts s" us]
  by (simp add: scroll_frames_append)

theorem C9_offset_and_bar_monotone_witness:
  "in_range (containerRef (run [PlayPauseClick] (mount DEFAULT_SONG example_container)))
   \<and> bar_in_sync (run [PlayPauseClick] (mount DEFAULT_SONG example_container))
   \<and> scrollTop (containerRef (scroll_frames [1000, 2000]
         (run [PlayPauseClick] (mount DEFAULT_SONG example_container)))) = 30
   \<and> scrollTop (containerRef (scroll_frames ([1000, 2000] @ [3000])
         (run [PlayPauseClick] (mount DEFAULT_SONG example_container)))) = 60
   \<and> progressBarHeight (scroll_frames [1000, 2000]
         (run [PlayPauseClick] (mount DEFAULT_SONG example_container))) = 95
   \<and> progressBarHeight (scroll_frames ([1000, 2000] @ [3000])
         (run [PlayPauseClick] (mount DEFAULT_SONG example_container))) = 90"
proof -
  have h: "in_range (containerRef (run [PlayPauseClick] (mount DEFAULT_SONG example_container)))"
    "bar_in_sync (run [PlayPauseClick] (mount DEFAULT_SONG example_container))"
    by (simp_all add: eval_defs in_range_def bar_in_sync_def)
  show ?thesis
    using h C9_offset_and_bar_monotone [OF h, of "[1000, 2000]" "[3000]"]
    by (simp add: eval_defs scroll_frames_def)
qed

text \<open>
  C9 as stated fails for the reported progress. Two successive ticks of a running
  scroll, one second apart at 30 pixels per second over 600 scrollable pixels: the
  offset goes from 0 to 30 and the height of the progress bar from 100 to 95.
\<close>

theorem C9_progress_counterexample:
  "isScrolling (run [PlayPauseClick, AnimationFrame 1 1000 (\<lambda>i. 0)]
       (mount DEFAULT_SONG example_container))
   \<and> scrollTop (containerRef (run [PlayPauseClick, AnimationFrame 1 1000 (\<lambda>i. 0)]
       (mount DEFAULT_SONG example_container))) = 0
   \<and> progressBarHeight (run [PlayPauseClick, AnimationFrame 1 1000 (\<lambda>i. 0)]
       (mount DEFAULT_SONG example_container)) = 100
   \<and> isScrolling (run [PlayPauseClick, AnimationFrame 1 1000 (\<lambda>i. 0),
         AnimationFrame 2 2000 (\<lambda>i. 0)] (mount DEFAULT_SONG example_container))
   \<and> scrollTop (containerRef (run [PlayPauseClick, AnimationFrame 1 1000 (\<lambda>i. 0),
         AnimationFrame 2 2000 (\<lambda>i. 0)] (mount DEFAULT_SONG example_container))) = 30
   \<and> progressBarHeight (run [PlayPauseClick, AnimationFrame 1 1000 (\<lambda>i. 0),
         AnimationFrame 2 2000 (\<lambda>i. 0)] (mount DEFAULT_SONG example_container)) = 95
   \<and> progressBarHeight (run [PlayPauseClick, AnimationFrame 1 1000 (\<lambda>i. 0),
         AnimationFrame 2 2000 (\<lambda>i. 0)] (mount DEFAULT_SONG example_container))
       < progressBarHeight (run [PlayPauseClick, AnimationFrame 1 1000 (\<lambda>i. 0)]
         (mount DEFAULT_SONG example_container))"
  by (simp add: eval_defs)

section \<open>Facts about arming and starting\<close>

lemmas trace_defs = scrolling_near_end_def scrolling_short_of_end_def acquire_during_scroll_def

lemma render_pass_acquiring:
  "acquiring (render_pass s) =
     (if depsMonitor s \<noteq> Some (shouldMonitor s) \<and> shouldMonitor s
      then Suc (acquiring s) else acquiring s)"
  by (simp add: render_pass_def Let_def monitorEffect_def startMonitoring_def)

lemma commit_not_scrolling: "\<not> isScrolling (commit s) \<Longrightarrow> \<not> isScrolling s"
  using commit_isScrolling_mono by blast

lemma commit_acquiring_armed:
  "depsMonitor s = Some True \<Longrightarrow> isMonitoring s \<Longrightarrow> \<not> isScrolling (commit s)
   \<Longrightarrow> acquiring (commit s) = acquiring s"
proof (induction s rule: commit.induct)
  case (1 s)
  show ?case
  proof (cases "dirty s")
    case True
    from "1.prems"(3) True have n: "\<not> isScrolling (commit (render_pass s))"
      by (simp add: commit_step)
    then have "\<not> isScrolling (render_pass s)" by (rule commit_not_scrolling)
    then have ns: "\<not> isScrolling s" by (simp add: render_pass_isScrolling)
    with "1.prems" have sm: "shouldMonitor s" by (simp add: shouldMonitor_def)
    with "1.prems" have a: "acquiring (render_pass s) = acquiring s"
      by (simp add: render_pass_acquiring)
    from sm "1.prems" n have "acquiring (commit (render_pass s)) = acquiring (render_pass s)"
      using "1.IH" [OF True] by simp
    with a True show ?thesis by (simp add: commit_step)
  next
    case False
    then show ?thesis by (simp add: commit_done)
  qed
qed

lemma commit_acquiring_rearm:
  assumes "depsMonitor s = Some False" "isMonitoring s" "\<not> isScrolling (commit s)"
  shows "acquiring (commit s) = Suc (acquiring s)"
proof -
  from assms(3) have ns: "\<not> isScrolling s" by (rule commit_not_scrolling)
  with assms have sm: "shouldMonitor s" by (simp add: shouldMonitor_def)
  with assms have d: "dirty s" by (simp add: dirty_def)
  from sm assms have a: "acquiring (render_pass s) = Suc (acquiring s)"
    by (simp add: render_pass_acquiring)
  from assms(3) d have n: "\<not> isScrolling (commit (render_pass s))"
    by (simp add: commit_step)
  from sm assms(2) n have "acquiring (commit (render_pass s)) = acquiring (render_pass s)"
    by (intro commit_acquiring_armed) simp_all
  with a d show ?thesis by (simp add: commit_step)
qed

lemma handle_isMonitoring_mono: "isMonitoring s \<Longrightarrow> isMonitoring (handle e s)"
  by (simp add: handle_def run_callback_def startMonitoring_resolved_def Let_def
      split: event.splits option.splits callback.splits)

text \<open>
  C7, as amended. After every step the \<open>enabled\<close> flag of the hook is
  \<open>isMonitoring\<close> and not \<open>isScrolling\<close>. So when the hook has been disarmed by the start
  of a scroll, with \<open>isMonitoring\<close> still true, and a step ends with the scroll not
  running, whatever its event (a pause, or the tick that reaches the end), the commit
  of that step arms the hook again and calls \<open>startMonitoring\<close> once: no arming request
  is involved.
\<close>

theorem C7_rearm_is_automatic:
  "depsMonitor (step e s) = Some (isMonitoring (step e s) \<and> \<not> isScrolling (step e s))
   \<and> (depsMonitor s = Some False \<and> isMonitoring s \<and> \<not> isScrolling (step e s)
        \<longrightarrow> depsMonitor (step e s) = Some True
            \<and> acquiring (step e s) = Suc (acquiring (handle e s)))"
proof -
  have c: "\<not> dirty (step e s)" by (rule step_clean)
  then have 1: "depsMonitor (step e s) = Some (isMonitoring (step e s) \<and> \<not> isScrolling (step e s))"
    by (simp add: dirty_def shouldMonitor_def)
  have 2: "depsMonitor (step e s) = Some True
            \<and> acquiring (step e s) = Suc (acquiring (handle e s))"
    if h: "depsMonitor s = Some False" "isMonitoring s" "\<not> isScrolling (step e s)"
  proof -
    from h(2) have m: "isMonitoring (handle e s)" by (rule handle_isMonitoring_mono)
    from h(1) have d: "depsMonitor (handle e s) = Some False" by simp
    from h(3) have n: "\<not> isScrolling (commit (handle e s))" by (simp add: step_def)
    from commit_acquiring_rearm [OF d m n]
    have "acquiring (step e s) = Suc (acquiring (handle e s))" by (simp add: step_def)
    moreover from m have "isMonitoring (step e s)" by (simp add: step_def)
    ultimately show ?thesis using 1 h(3) by simp
  qed
  from 1 2 show ?thesis by blast
qed

theorem C7_rearm_is_automatic_witness:
  "depsMonitor (run scrolling_near_end (mount DEFAULT_SONG example_container)) = Some False
   \<and> isMonitoring (run scrolling_near_end (mount DEFAULT_SONG example_container))
   \<and> acquiring (run scrolling_near_end (mount DEFAULT_SONG example_container)) = 0
   \<and> \<not> isScrolling (step ScreenTap
         (run scrolling_near_end (mount DEFAULT_SONG example_container)))
   \<and> depsMonitor (step ScreenTap
         (run scrolling_near_end (mount DEFAULT_SONG example_container))) = Some True
   \<and> acquiring (step ScreenTap
         (run scrolling_near_end (mount DEFAULT_SONG example_container))) = 1"
proof -
  let ?s = "run scrolling_near_end (mount DEFAULT_SONG example_container)"
  have h: "depsMonitor ?s = Some False" "isMonitoring ?s" "acquiring ?s = 0"
    "\<not> isScrolling (step ScreenTap ?s)" "acquiring (handle ScreenTap ?s) = 0"
    by (simp_all add: eval_defs trace_defs)
  note t = C7_rearm_is_automatic [of ScreenTap ?s]
  from t h(1,2,4) have a: "depsMonitor (step ScreenTap ?s) = Some True"
    by blast
  from t h(1,2,4) have "acquiring (step ScreenTap ?s) = Suc (acquiring (handle ScreenTap ?s))"
    by blast
  with h(5) have b: "acquiring (step ScreenTap ?s) = 1" by simp
  from h a b show ?thesis by simp
qed

text \<open>
  C7 as stated fails. The scroll runs and has disarmed the hook: no analyser, no
  acquisition pending. The next tick reaches the end of the content and stops the
  scroll; the commit of that tick arms the hook again and starts an acquisition, and
  when it resolves, sampling resumes. The run has no pause, no reset and no click on
  Arm after the scroll has started.
\<close>

theorem C7_rearm_counterexample:
  "isScrolling (run scrolling_near_end (mount DEFAULT_SONG example_container))
   \<and> depsMonitor (run scrolling_near_end (mount DEFAULT_SONG example_container)) = Some False
   \<and> \<not> analyserRef (run scrolling_near_end (mount DEFAULT_SONG example_container))
   \<and> acquiring (run scrolling_near_end (mount DEFAULT_SONG example_container)) = 0
   \<and> \<not> isScrolling (run (scrolling_near_end @ [AnimationFrame 3 2000 (\<lambda>i. 0)])
         (mount DEFAULT_SONG example_container))
   \<and> depsMonitor (run (scrolling_near_end @ [AnimationFrame 3 2000 (\<lambda>i. 0)])
         (mount DEFAULT_SONG example_container)) = Some True
   \<and> acquiring (run (scrolling_near_end @ [AnimationFrame 3 2000 (\<lambda>i. 0)])
         (mount DEFAULT_SONG example_container)) = 1
   \<and> analyserRef (run (scrolling_near_end @ [AnimationFrame 3 2000 (\<lambda>i. 0),
           GetUserMediaResolved (signal_at_db (- 50))])
         (mount DEFAULT_SONG example_container))
   \<and> currentDB (run (scrolling_near_end @ [AnimationFrame 3 2000 (\<lambda>i. 0),
           GetUserMediaResolved (signal_at_db (- 50))])
         (mount DEFAULT_SONG example_container)) = - 50"
  by (simp add: eval_defs trace_defs)

text \<open>
  C6 fails on the code, whose comment asks for what the claim says ("Disable monitoring
  while scrolling"). The user starts the scroll while the first acquisition is pending;
  disarming stops nothing, since nothing runs yet. When \<open>getUserMedia\<close> resolves,
  \<open>startMonitoring\<close> goes on without looking at \<open>enabled\<close>: it stores the stream and
  the analyser, and \<open>analyze\<close> samples on every frame. In the state reached the scroll
  is running, the \<open>enabled\<close> flag of the hook is false, the device is held, successive
  frames have set \<open>currentDB\<close> to -50 and then to -45, and the next \<open>analyze\<close> is queued
  next to the scroll tick.
\<close>

theorem C6_sampling_while_scrolling:
  "isScrolling (run acquire_during_scroll (mount DEFAULT_SONG example_container))
   \<and> depsMonitor (run acquire_during_scroll (mount DEFAULT_SONG example_container)) = Some False
   \<and> streamRef (run acquire_during_scroll (mount DEFAULT_SONG example_container))
   \<and> analyserRef (run acquire_during_scroll (mount DEFAULT_SONG example_container))
   \<and> currentDB (run (take 2 acquire_during_scroll) (mount DEFAULT_SONG example_container)) = - 50
   \<and> currentDB (run acquire_during_scroll (mount DEFAULT_SONG example_container)) = - 45
   \<and> rafQueue (run acquire_during_scroll (mount DEFAULT_SONG example_container))
       = [(1, ScrollCb True), (3, AnalyzeCb)]"
  by (simp add: eval_defs trace_defs)

lemma render_pass_analyserRef: "\<not> analyserRef s \<Longrightarrow> \<not> analyserRef (render_pass s)"
  by (simp add: render_pass_def Let_def monitorCleanup_def monitorEffect_def
      startMonitoring_def stopMonitoring_def cancelAnimationFrame_def)

lemma commit_analyserRef: "\<not> analyserRef s \<Longrightarrow> \<not> analyserRef (commit s)"
proof (induction s rule: commit.induct)
  case (1 s)
  show ?case
  proof (cases "dirty s")
    case True
    with 1 show ?thesis by (simp add: commit_step render_pass_analyserRef)
  next
    case False
    with 1 show ?thesis by (simp add: commit_done)
  qed
qed

lemma commit_acquiring_disarmed:
  "\<not> triggered s \<Longrightarrow> depsMonitor s = Some False \<Longrightarrow> depsMonitor (commit s) = Some False
   \<Longrightarrow> acquiring (commit s) = acquiring s"
proof (induction s rule: commit.induct)
  case (1 s)
  show ?case
  proof (cases "dirty s")
    case True
    from "1.prems"(1) have nt: "\<not> triggered (render_pass s)"
      by (simp add: render_pass_triggered)
    have fin: "depsMonitor (commit (render_pass s)) = Some False"
      using "1.prems"(3) True by (simp add: commit_step)
    have "\<not> dirty (commit (render_pass s))" by (rule commit_clean)
    with fin have "\<not> shouldMonitor (commit (render_pass s))" by (simp add: dirty_def)
    moreover from nt have "isScrolling (commit (render_pass s)) = isScrolling (render_pass s)"
      by (simp add: commit_untriggered)
    moreover from "1.prems"(1) have "isScrolling (render_pass s) = isScrolling s"
      by (simp add: render_pass_isScrolling)
    ultimately have ns: "\<not> shouldMonitor s" by (simp add: shouldMonitor_def)
    then have a: "acquiring (render_pass s) = acquiring s"
      and d: "depsMonitor (render_pass s) = Some False"
      by (simp_all add: render_pass_acquiring)
    from "1.IH" [OF True nt d fin] a True show ?thesis by (simp add: commit_step)
  next
    case False
    then show ?thesis by (simp add: commit_done)
  qed
qed

lemma handle_disarmed_quiet:
  assumes "\<not> analyserRef s" "acquiring s = 0" "\<not> triggered s"
  shows "\<not> analyserRef (handle e s) \<and> acquiring (handle e s) = 0 \<and> \<not> triggered (handle e s)"
  using assms
  by (cases e)
    (auto simp: handle_def run_callback_def analyze_def split: option.splits callback.splits)

text \<open>
  A hook that is disarmed with no analyser set, no acquisition pending and the flag
  false keeps the flag false in every step, and as long as it stays disarmed it keeps
  no analyser and no pending acquisition: without an acquisition in flight at the
  disarm, the flag stays false until the hook is armed again.
\<close>

lemma disarmed_stays_quiet:
  assumes "depsMonitor s = Some False" "\<not> analyserRef s" "acquiring s = 0" "\<not> triggered s"
  shows "\<not> triggered (step e s)
       \<and> (depsMonitor (step e s) = Some False \<longrightarrow>
            \<not> analyserRef (step e s) \<and> acquiring (step e s) = 0)"
proof -
  from handle_disarmed_quiet [OF assms(2,3,4), of e]
  have h: "\<not> analyserRef (handle e s)" "acquiring (handle e s) = 0" "\<not> triggered (handle e s)"
    by simp_all
  from assms(1) have d: "depsMonitor (handle e s) = Some False" by simp
  from h(3) have 1: "\<not> triggered (step e s)" by (simp add: step_def commit_untriggered)
  from h(1) have 2: "\<not> analyserRef (step e s)" by (simp add: step_def commit_analyserRef)
  have 3: "acquiring (step e s) = 0" if "depsMonitor (step e s) = Some False"
    using commit_acquiring_disarmed [OF h(3) d] that h(2) by (simp add: step_def)
  from 1 2 3 show ?thesis by blast
qed


section \<open>Facts about the trigger\<close>

lemma commit_triggered_clears:
  "depsMonitor s = Some True \<or> \<not> triggered s \<Longrightarrow> isScrolling (commit s)
   \<Longrightarrow> \<not> triggered (commit s)"
proof (induction s rule: commit.induct)
  case (1 s)
  show ?case
  proof (cases "dirty s")
    case True
    have "depsMonitor (render_pass s) = Some True \<or> \<not> triggered (render_pass s)"
      using "1.prems"(1) by (auto simp: render_pass_triggered)
    with 1 True show ?thesis by (simp add: commit_step)
  next
    case False
    with 1 show ?thesis by (auto simp add: commit_done dirty_def shouldMonitor_def)
  qed
qed

lemma commit_start_iff:
  assumes "\<not> isScrolling s" "depsTrigger s = Some (False, False)"
  shows "isScrolling (commit s) = triggered s"
proof (cases "triggered s")
  case True
  with assms show ?thesis by (simp add: commit_triggered_start)
next
  case False
  with assms show ?thesis by (simp add: commit_untriggered)
qed

lemma render_pass_while_scrolling:
  assumes "isScrolling s" "depsScroll s = Some True" "depsMonitor s = Some False"
  shows "isScrolling (render_pass s) \<and> depsScroll (render_pass s) = Some True
       \<and> depsMonitor (render_pass s) = Some False
       \<and> lastFrameTime (render_pass s) = lastFrameTime s
       \<and> animationRef (render_pass s) = animationRef s
       \<and> rafQueue (render_pass s) = rafQueue s"
  using assms
  by (simp add: render_pass_def Let_def shouldMonitor_def triggerEffect_def)

lemma commit_while_scrolling:
  "isScrolling s \<Longrightarrow> depsScroll s = Some True \<Longrightarrow> depsMonitor s = Some False
   \<Longrightarrow> isScrolling (commit s) \<and> lastFrameTime (commit s) = lastFrameTime s
     \<and> animationRef (commit s) = animationRef s \<and> rafQueue (commit s) = rafQueue s"
proof (induction s rule: commit.induct)
  case (1 s)
  show ?case
  proof (cases "dirty s")
    case True
    from render_pass_while_scrolling [OF "1.prems"] "1.IH" [OF True] True
    show ?thesis by (simp add: commit_step)
  next
    case False
    with 1 show ?thesis by (simp add: commit_done)
  qed
qed

lemma handle_AnimationFrame_analyze:
  "map_of (rafQueue s) i = Some AnalyzeCb
   \<Longrightarrow> handle (AnimationFrame i time td) s = analyze td (cancelAnimationFrame i s)"
  by (simp add: handle_def run_callback_def)

text \<open>
  C5, as amended. With the component at rest, not scrolling, the hook armed and its
  flag false, the step that analyses a sample ends with the scroll running exactly when
  that sample exceeds the threshold that \<open>analyze\<close> compares with; when it does, the same
  step has cleared the flag, disarmed the hook and reset the time of the last tick, so
  the start happens once. While the scroll is running, the step of an analysed sample
  leaves it running and restarts nothing (the time of the last tick and the container
  are unchanged), and the trigger effect of a scrolling render does nothing. Nothing
  is said of a state Finished: the code has none, a stopped scroll is not scrolling.
\<close>

theorem C5_trigger_starts_scroll:
  "(\<not> dirty s \<and> \<not> isScrolling s \<and> \<not> triggered s \<and> depsMonitor s = Some True
      \<and> analyserRef s \<and> map_of (rafQueue s) i = Some AnalyzeCb \<longrightarrow>
       isScrolling (step (AnimationFrame i time td) s)
         = (thresholdDB s < loudness_db (getFloatTimeDomainData td))
       \<and> (isScrolling (step (AnimationFrame i time td) s) \<longrightarrow>
            \<not> triggered (step (AnimationFrame i time td) s)
            \<and> depsMonitor (step (AnimationFrame i time td) s) = Some False
            \<and> lastFrameTime (step (AnimationFrame i time td) s) = 0))
   \<and> (\<not> dirty s \<and> isScrolling s \<and> map_of (rafQueue s) i = Some AnalyzeCb \<longrightarrow>
       isScrolling (step (AnimationFrame i time td) s)
       \<and> lastFrameTime (step (AnimationFrame i time td) s) = lastFrameTime s
       \<and> containerRef (step (AnimationFrame i time td) s) = containerRef s)
   \<and> triggerEffect trig True s = s"
proof -
  let ?e = "AnimationFrame i time td"
  have a: "isScrolling (step ?e s) = (thresholdDB s < loudness_db (getFloatTimeDomainData td))
       \<and> (isScrolling (step ?e s) \<longrightarrow>
            \<not> triggered (step ?e s) \<and> depsMonitor (step ?e s) = Some False
            \<and> lastFrameTime (step ?e s) = 0)"
    if h: "\<not> dirty s" "\<not> isScrolling s" "\<not> triggered s" "depsMonitor s = Some True"
      "analyserRef s" "map_of (rafQueue s) i = Some AnalyzeCb"
  proof -
    have hd: "handle ?e s = analyze td (cancelAnimationFrame i s)"
      using h(6) by (rule handle_AnimationFrame_analyze)
    from h(1,2,3) have dt: "depsTrigger (handle ?e s) = Some (False, False)"
      by (simp add: dirty_def)
    from h(2) have ns: "\<not> isScrolling (handle ?e s)" by (simp add: hd)
    from h(3,5) have tr: "triggered (handle ?e s)
        = (thresholdDB s < loudness_db (getFloatTimeDomainData td))"
      by (simp add: hd analyze_triggered)
    from commit_start_iff [OF ns dt] tr
    have 1: "isScrolling (step ?e s) = (thresholdDB s < loudness_db (getFloatTimeDomainData td))"
      by (simp add: step_def)
    have 2: "\<not> triggered (step ?e s) \<and> depsMonitor (step ?e s) = Some False
            \<and> lastFrameTime (step ?e s) = 0" if sc: "isScrolling (step ?e s)"
    proof -
      from h(4) have "depsMonitor (handle ?e s) = Some True" by simp
      with sc have t: "\<not> triggered (step ?e s)"
        unfolding step_def using commit_triggered_clears by blast
      have "\<not> dirty (step ?e s)" by (rule step_clean)
      with sc have m: "depsMonitor (step ?e s) = Some False"
        by (simp add: dirty_def shouldMonitor_def)
      from h(1,2) sc have "lastFrameTime (step ?e s) = 0" by (rule step_starts_scroll)
      with t m show ?thesis by simp
    qed
    from 1 2 show ?thesis by blast
  qed
  have b: "isScrolling (step ?e s) \<and> lastFrameTime (step ?e s) = lastFrameTime s
       \<and> containerRef (step ?e s) = containerRef s"
    if h: "\<not> dirty s" "isScrolling s" "map_of (rafQueue s) i = Some AnalyzeCb"
  proof -
    have hd: "handle ?e s = analyze td (cancelAnimationFrame i s)"
      using h(3) by (rule handle_AnimationFrame_analyze)
    from h(1,2) have d: "depsScroll (handle ?e s) = Some True" "depsMonitor (handle ?e s) = Some False"
      by (simp_all add: dirty_def shouldMonitor_def)
    from h(2) have sc: "isScrolling (handle ?e s)" by (simp add: hd)
    from commit_while_scrolling [OF sc d]
    show ?thesis by (simp add: step_def hd)
  qed
  have c: "triggerEffect trig True s = s" by (simp add: triggerEffect_def)
  from a b c show ?thesis by blast
qed

theorem C5_trigger_starts_scroll_witness:
  "\<not> isScrolling (run [GetUserMediaResolved (signal_at_db (- 50))]
        (mount DEFAULT_SONG example_container))
   \<and> \<not> isScrolling (run [GetUserMediaResolved (signal_at_db (- 50)),
           AnimationFrame 1 16 (signal_at_db (- 40))] (mount DEFAULT_SONG example_container))
   \<and> isScrolling (step (AnimationFrame 2 32 (signal_at_db (- 30)))
        (run [GetUserMediaResolved (signal_at_db (- 50)),
           AnimationFrame 1 16 (signal_at_db (- 40))] (mount DEFAULT_SONG example_container)))
   \<and> \<not> triggered (step (AnimationFrame 2 32 (signal_at_db (- 30)))
        (run [GetUserMediaResolved (signal_at_db (- 50)),
           AnimationFrame 1 16 (signal_at_db (- 40))] (mount DEFAULT_SONG example_container)))
   \<and> isScrolling (step (AnimationFrame 3 32 (signal_at_db (- 20)))
        (run acquire_during_scroll (mount DEFAULT_SONG example_container)))
   \<and> lastFrameTime (step (AnimationFrame 3 32 (signal_at_db (- 20)))
        (run acquire_during_scroll (mount DEFAULT_SONG example_container))) = 0"
proof -
  let ?a = "run [GetUserMediaResolved (signal_at_db (- 50)),
           AnimationFrame 1 16 (signal_at_db (- 40))] (mount DEFAULT_SONG example_container)"
  let ?b = "run acquire_during_scroll (mount DEFAULT_SONG example_container)"
  have a: "\<not> dirty ?a" "\<not> isScrolling ?a" "\<not> triggered ?a" "depsMonitor ?a = Some True"
    "analyserRef ?a" "map_of (rafQueue ?a) 2 = Some AnalyzeCb" "thresholdDB ?a = - 35"
    by (simp_all add: eval_defs)
  have b: "\<not> dirty ?b" "isScrolling ?b" "map_of (rafQueue ?b) 3 = Some AnalyzeCb"
    "lastFrameTime ?b = 0"
    by (simp_all add: eval_defs trace_defs)
  have 0: "\<not> isScrolling (run [GetUserMediaResolved (signal_at_db (- 50))]
        (mount DEFAULT_SONG example_container))"
    by (simp add: eval_defs)
  note t = C5_trigger_starts_scroll [of ?a 2 32 "signal_at_db (- 30)" True]
  from t a have 1: "isScrolling (step (AnimationFrame 2 32 (signal_at_db (- 30))) ?a)"
    by simp
  with t a have 2: "\<not> triggered (step (AnimationFrame 2 32 (signal_at_db (- 30))) ?a)"
    by blast
  note u = C5_trigger_starts_scroll [of ?b 3 32 "signal_at_db (- 20)" True]
  from u b(1,2,3) have 3: "isScrolling (step (AnimationFrame 3 32 (signal_at_db (- 20))) ?b)"
    "lastFrameTime (step (AnimationFrame 3 32 (signal_at_db (- 20))) ?b) = lastFrameTime ?b"
    by blast+
  from 0 a(2) 1 2 3 b(4) show ?thesis by simp
qed

text \<open>
  C5 as stated fails: a trigger starts the scroll in the state that the specification
  calls Finished. The scroll has run to the end (offset 600 of 600) and has stopped,
  which armed the hook again; the new acquisition resolves with a signal at -20 dB, and
  the same step sets \<open>isScrolling\<close> and queues a scroll tick.
\<close>

theorem C5_retrigger_counterexample:
  "\<not> isScrolling (run (scrolling_near_end @ [AnimationFrame 3 2000 (\<lambda>i. 0)])
        (mount DEFAULT_SONG example_container))
   \<and> containerRef (run (scrolling_near_end @ [AnimationFrame 3 2000 (\<lambda>i. 0)])
        (mount DEFAULT_SONG example_container))
       = \<lparr>scrollTop = 600, scrollHeight = 1000, clientHeight = 400\<rparr>
   \<and> rafQueue (run (scrolling_near_end @ [AnimationFrame 3 2000 (\<lambda>i. 0)])
        (mount DEFAULT_SONG example_container)) = []
   \<and> isScrolling (run (scrolling_near_end @ [AnimationFrame 3 2000 (\<lambda>i. 0),
          GetUserMediaResolved (signal_at_db (- 20))])
        (mount DEFAULT_SONG example_container))
   \<and> rafQueue (run (scrolling_near_end @ [AnimationFrame 3 2000 (\<lambda>i. 0),
          GetUserMediaResolved (signal_at_db (- 20))])
        (mount DEFAULT_SONG example_container)) = [(6, ScrollCb True)]"
  by (simp add: eval_defs trace_defs)

section \<open>Facts about the queued scroll ticks\<close>

lemma scroll_ticks_Nil [simp]: "scroll_ticks [] = []"
  by (simp add: scroll_ticks_def)

lemma scroll_ticks_cancel:
  "scroll_ticks (rafQueue (cancelAnimationFrame i s))
     = filter (\<lambda>p. fst p \<noteq> i) (scroll_ticks (rafQueue s))"
  by (auto simp: cancelAnimationFrame_def scroll_ticks_def intro: filter_cong)

lemma set_scroll_ticks: "set (scroll_ticks q) = {p \<in> set q. snd p \<noteq> AnalyzeCb}"
  by (auto simp: scroll_ticks_def)

lemma ticks_owned_iff:
  "ticks_owned s =
     (rafNext s \<noteq> 0
      \<and> (if depsScroll s = Some True
          then animationRef s \<noteq> 0
               \<and> (\<forall>p\<in>set (scroll_ticks (rafQueue s)). fst p = animationRef s)
          else scroll_ticks (rafQueue s) = []))"
  by (simp add: ticks_owned_def list_all_iff)

lemma rafQueue_cancelAnimationFrame:
  "set (scroll_ticks (rafQueue (cancelAnimationFrame i s)))
     = {p \<in> set (scroll_ticks (rafQueue s)). fst p \<noteq> i}"
  by (auto simp: cancelAnimationFrame_def set_scroll_ticks)

lemma rafQueue_stopMonitoring:
  "set (scroll_ticks (rafQueue (stopMonitoring s))) \<subseteq> set (scroll_ticks (rafQueue s))"
  by (auto simp: stopMonitoring_def Let_def rafQueue_cancelAnimationFrame)

lemma rafQueue_monitorEffect:
  "set (scroll_ticks (rafQueue (monitorEffect en s))) \<subseteq> set (scroll_ticks (rafQueue s))"
  using rafQueue_stopMonitoring [of s] by (simp add: monitorEffect_def startMonitoring_def)

lemma rafQueue_scrollCleanup:
  "set (scroll_ticks (rafQueue (scrollCleanup s)))
     = (if animationRef s \<noteq> 0 then {p \<in> set (scroll_ticks (rafQueue s)). fst p \<noteq> animationRef s}
        else set (scroll_ticks (rafQueue s)))"
  by (simp add: scrollCleanup_def rafQueue_cancelAnimationFrame)

lemma scrollEffect_True:
  "set (scroll_ticks (rafQueue (scrollEffect True s)))
     = insert (rafNext s, ScrollCb True) (set (scroll_ticks (rafQueue s)))"
  "animationRef (scrollEffect True s) = rafNext s"
  "rafNext (scrollEffect True s) = Suc (rafNext s)"
  by (auto simp: scrollEffect_def requestAnimationFrame_def Let_def set_scroll_ticks)

lemma scrollEffect_False: "scrollEffect False s = scrollCleanup s"
  by (simp add: scrollEffect_def scrollCleanup_def)

lemma scrollCleanup_rafNext [simp]: "rafNext (scrollCleanup s) = rafNext s"
  by (simp add: scrollCleanup_def cancelAnimationFrame_def)

lemma scrollCleanup_animationRef [simp]: "animationRef (scrollCleanup s) = animationRef s"
  by (simp add: scrollCleanup_def cancelAnimationFrame_def)

lemma monitor_rafNext [simp]:
  "rafNext (stopMonitoring s) = rafNext s"
  "rafNext (monitorCleanup s) = rafNext s"
  "rafNext (monitorEffect en s) = rafNext s"
  by (simp_all add: stopMonitoring_def monitorCleanup_def monitorEffect_def
      startMonitoring_def cancelAnimationFrame_def Let_def)

lemma analyze_ticks [simp]:
  "scroll_ticks (rafQueue (analyze td s)) = scroll_ticks (rafQueue s)"
  "0 < rafNext s \<Longrightarrow> 0 < rafNext (analyze td s)"
  by (simp_all add: analyze_def requestAnimationFrame_def Let_def scroll_ticks_def)

lemma disowned_empty:
  "\<forall>p\<in>A. fst p = a \<Longrightarrow> B \<subseteq> A \<Longrightarrow> \<forall>p\<in>B. fst p \<noteq> a \<Longrightarrow> B = {}"
  by auto

lemma ticks_owned_render_pass:
  assumes J: "ticks_owned s"
  shows "ticks_owned (render_pass s)"
proof -
  define chM where "chM = (depsMonitor s \<noteq> Some (shouldMonitor s))"
  define chT where "chT = (depsTrigger s \<noteq> Some (triggered s, isScrolling s))"
  define chS where "chS = (depsScroll s \<noteq> Some (isScrolling s))"
  define s1 where "s1 = (if chM \<and> depsMonitor s \<noteq> None then monitorCleanup s else s)"
  define s2 where "s2 = (if chS \<and> depsScroll s \<noteq> None then scrollCleanup s1 else s1)"
  define s3 where "s3 = (if chM then monitorEffect (shouldMonitor s) s2 else s2)"
  define s4 where "s4 = (if chT then triggerEffect (triggered s) (isScrolling s) s3 else s3)"
  define s5 where "s5 = (if chS then scrollEffect (isScrolling s) s4 else s4)"
  define s6 where "s6 = (if \<not> depsProgress s then updateProgressBar s5 else s5)"
  let ?T = "\<lambda>x. set (scroll_ticks (rafQueue x))"
  have rp: "rafQueue (render_pass s) = rafQueue s6" "animationRef (render_pass s) = animationRef s6"
    "rafNext (render_pass s) = rafNext s6"
    unfolding s6_def s5_def s4_def s3_def s2_def s1_def chM_def chT_def chS_def
    by (simp_all add: render_pass_def Let_def)
  from J have n0: "rafNext s \<noteq> 0" by (simp add: ticks_owned_iff)
  have 1: "?T s1 \<subseteq> ?T s" "animationRef s1 = animationRef s" "rafNext s1 = rafNext s"
    using rafQueue_stopMonitoring [of s] by (simp_all add: s1_def monitorCleanup_def)
  have 2: "?T s2 \<subseteq> ?T s" "animationRef s2 = animationRef s" "rafNext s2 = rafNext s"
    using 1 by (auto simp: s2_def rafQueue_scrollCleanup)
  have c2: "\<forall>p\<in>?T s2. fst p \<noteq> animationRef s"
    if "chS" "depsScroll s \<noteq> None" "animationRef s \<noteq> 0"
    using that 1 by (auto simp: s2_def rafQueue_scrollCleanup)
  have 3: "?T s3 \<subseteq> ?T s2" "animationRef s3 = animationRef s" "rafNext s3 = rafNext s"
    using 2 rafQueue_monitorEffect [of "shouldMonitor s" s2] by (simp_all add: s3_def)
  have 4: "?T s4 = ?T s3" "animationRef s4 = animationRef s" "rafNext s4 = rafNext s"
    using 3 by (simp_all add: s4_def)
  have 6: "rafQueue s6 = rafQueue s5" "animationRef s6 = animationRef s5"
    "rafNext s6 = rafNext s5"
    by (simp_all add: s6_def)
  show ?thesis
  proof (cases chS)
    case False
    then have 5: "s5 = s4" by (simp add: s5_def)
    from False have d: "depsScroll s = Some (isScrolling s)" by (simp add: chS_def)
    from False have "s2 = s1" by (simp add: s2_def)
    with 1 3 4 have sub: "?T s4 \<subseteq> ?T s" by auto
    have own: "animationRef s \<noteq> 0 \<and> (\<forall>p\<in>?T s4. fst p = animationRef s)"
      if "isScrolling s"
    proof -
      from J d that have "animationRef s \<noteq> 0" "\<forall>p\<in>?T s. fst p = animationRef s"
        by (simp_all add: ticks_owned_iff)
      with sub show ?thesis by blast
    qed
    have none: "?T s4 = {}" if "\<not> isScrolling s"
    proof -
      from J d that have "?T s = {}" by (simp add: ticks_owned_iff)
      with sub show ?thesis by simp
    qed
    from d own none 4(2,3) n0 show ?thesis
      unfolding ticks_owned_iff [of "render_pass s"] rp 6 5
      by simp
  next
    case True
    show ?thesis
    proof (cases "isScrolling s")
      case sc: True
      with True have d: "depsScroll s \<noteq> Some True" by (simp add: chS_def)
      with J have e: "?T s = {}" by (simp add: ticks_owned_iff)
      with 2 3 4 have e4: "?T s4 = {}" by auto
      from True sc have 5: "s5 = scrollEffect True s4" by (simp add: s5_def)
      from e4 4 n0 sc show ?thesis
        unfolding ticks_owned_iff [of "render_pass s"] rp 6 5
        by (simp add: scrollEffect_True)
    next
      case sc: False
      from True sc have 5: "s5 = scrollCleanup s4" by (simp add: s5_def scrollEffect_False)
      have "?T s5 = {}"
      proof (cases "depsScroll s = Some True")
        case t: True
        with J have a: "animationRef s \<noteq> 0" "\<forall>p\<in>?T s. fst p = animationRef s"
          by (simp_all add: ticks_owned_iff)
        from t True a(1) have "\<forall>p\<in>?T s2. fst p \<noteq> animationRef s" by (intro c2) simp_all
        with a(2) 2(1) have "?T s2 = {}" by (rule disowned_empty)
        with 3 4 have "?T s4 = {}" by auto
        then show ?thesis by (simp add: 5 rafQueue_scrollCleanup)
      next
        case f: False
        with J have "?T s = {}" by (simp add: ticks_owned_iff)
        with 2 3 4 have "?T s4 = {}" by auto
        then show ?thesis by (simp add: 5 rafQueue_scrollCleanup)
      qed
      with sc 4 n0 show ?thesis
        unfolding ticks_owned_iff [of "render_pass s"] rp 6
        by (simp add: 5)
    qed
  qed
qed

lemma ticks_owned_commit: "ticks_owned s \<Longrightarrow> ticks_owned (commit s)"
proof (induction s rule: commit.induct)
  case (1 s)
  show ?case
  proof (cases "dirty s")
    case True
    with 1 show ?thesis by (simp add: commit_step ticks_owned_render_pass)
  next
    case False
    with 1 show ?thesis by (simp add: commit_done)
  qed
qed

lemma scroll_queue:
  "scroll_ticks (rafQueue (scroll time cap s))
     = scroll_ticks (rafQueue s) @ (if cap then [(rafNext s, ScrollCb cap)] else [])"
  "animationRef (scroll time cap s) = (if cap then rafNext s else animationRef s)"
  "rafNext (scroll time cap s) = (if cap then Suc (rafNext s) else rafNext s)"
  by (simp_all add: scroll_def requestAnimationFrame_def Let_def scroll_ticks_def)

lemma ticks_owned_frame:
  assumes "ticks_owned s" "map_of (rafQueue s) i = Some cb"
  shows "ticks_owned (run_callback cb time td (cancelAnimationFrame i s))"
proof (cases cb)
  case AnalyzeCb
  from assms(1) show ?thesis
    unfolding ticks_owned_iff AnalyzeCb run_callback_def
    by (auto simp: scroll_ticks_cancel)
next
  case (ScrollCb cap)
  from assms(2) have "(i, cb) \<in> set (rafQueue s)" by (rule map_of_SomeD)
  with ScrollCb have m: "(i, cb) \<in> set (scroll_ticks (rafQueue s))"
    by (simp add: set_scroll_ticks)
  with assms(1) have d: "depsScroll s = Some True" and a: "animationRef s \<noteq> 0"
    and o: "\<forall>p\<in>set (scroll_ticks (rafQueue s)). fst p = animationRef s"
    and n: "rafNext s \<noteq> 0"
    by (auto simp: ticks_owned_iff split: if_splits)
  from o m have i: "i = animationRef s" by auto
  have "set (scroll_ticks (rafQueue (cancelAnimationFrame i s))) = {}"
    using o unfolding rafQueue_cancelAnimationFrame i by auto
  then have e: "scroll_ticks (rafQueue (cancelAnimationFrame i s)) = []"
    by simp
  from d a n show ?thesis
    unfolding ticks_owned_iff ScrollCb run_callback_def
    by (simp add: scroll_queue e)
qed

lemma ticks_owned_handle: "ticks_owned s \<Longrightarrow> ticks_owned (handle e s)"
proof (cases e)
  case (GetUserMediaResolved td)
  assume "ticks_owned s"
  then show ?thesis
    unfolding GetUserMediaResolved ticks_owned_iff
    by (auto simp add: handle_def startMonitoring_resolved_def Let_def)
next
  case GetUserMediaRejected
  assume "ticks_owned s"
  then show ?thesis
    unfolding GetUserMediaRejected ticks_owned_iff
    by (auto simp add: handle_def)
next
  case (AnimationFrame i time td)
  assume "ticks_owned s"
  then show ?thesis
    unfolding AnimationFrame
    by (simp add: handle_def ticks_owned_frame split: option.splits)
next
  case PlayPauseClick
  assume "ticks_owned s"
  then show ?thesis
    unfolding PlayPauseClick ticks_owned_iff by (auto simp add: handle_def)
next
  case ScreenTap
  assume "ticks_owned s"
  then show ?thesis
    unfolding ScreenTap ticks_owned_iff by (auto simp add: handle_def)
next
  case ArmClick
  assume "ticks_owned s"
  then show ?thesis
    unfolding ArmClick ticks_owned_iff by (auto simp add: handle_def)
next
  case (UserScroll y)
  assume "ticks_owned s"
  then show ?thesis
    unfolding UserScroll ticks_owned_iff by (auto simp add: handle_def)
next
  case (SongUpdate sg)
  assume "ticks_owned s"
  then show ?thesis
    unfolding SongUpdate ticks_owned_iff by (auto simp add: handle_def)
qed

lemma ticks_owned_step: "ticks_owned s \<Longrightarrow> ticks_owned (step e s)"
  by (simp add: step_def ticks_owned_handle ticks_owned_commit)

lemma ticks_owned_run: "ticks_owned s \<Longrightarrow> ticks_owned (run es s)"
  unfolding run_def by (induction es arbitrary: s) (simp_all add: ticks_owned_step)

lemma ticks_owned_mount: "ticks_owned (mount sg c)"
  unfolding mount_def by (rule ticks_owned_commit) (simp add: ticks_owned_def initial_def)

lemma run_clean: "\<not> dirty (run es (mount sg c))"
proof (cases es rule: rev_cases)
  case Nil
  then show ?thesis by (simp add: run_def mount_def commit_clean)
next
  case (snoc es' e)
  then show ?thesis by (simp add: run_def step_clean)
qed

lemma reachable_not_scrolling:
  assumes "\<not> isScrolling (run es (mount sg c))"
  shows "scroll_ticks (rafQueue (run es (mount sg c))) = []"
proof -
  have "\<not> dirty (run es (mount sg c))" by (rule run_clean)
  with assms have "depsScroll (run es (mount sg c)) = Some False" by (simp add: dirty_def)
  moreover have "ticks_owned (run es (mount sg c))"
    by (intro ticks_owned_run ticks_owned_mount)
  ultimately show ?thesis by (simp add: ticks_owned_def)
qed

lemma scroll_isScrolling:
  "isScrolling (scroll time captured s) =
     (isScrolling s
      \<and> \<not> (0 < scrollspeed (song s)
                 * ((time - (if lastFrameTime s = 0 then time else lastFrameTime s)) / 1000)
            \<and> scrollHeight (containerRef (scroll time captured s)) - 1
                \<le> scrollTop (containerRef (scroll time captured s))
                   + clientHeight (containerRef (scroll time captured s))))"
  by (simp add: scroll_def requestAnimationFrame_def Let_def)

text \<open>
  C4, as amended. A tick leaves the scroll running exactly when it was running and it
  is not the case that the tick moved (its move amount, speed times elapsed seconds, is
  positive) and that after the move the offset is within one unit of the end
  (\<open>scrollTop + clientHeight \<ge> scrollHeight - 1\<close>). In every state that the mounted
  component reaches in which the scroll is not running, the state after such a tick
  included, no scroll tick is queued: the offset does not advance until the scroll is
  started again. Nothing is said of a terminal state: the code has none.
\<close>

theorem C4_scroll_stops_at_end:
  "isScrolling (scroll time captured s) =
     (isScrolling s
      \<and> \<not> (0 < scrollspeed (song s)
                 * ((time - (if lastFrameTime s = 0 then time else lastFrameTime s)) / 1000)
            \<and> scrollHeight (containerRef (scroll time captured s)) - 1
                \<le> scrollTop (containerRef (scroll time captured s))
                   + clientHeight (containerRef (scroll time captured s))))
   \<and> (\<not> isScrolling (run es (mount sg c)) \<longrightarrow>
        scroll_ticks (rafQueue (run es (mount sg c))) = [])"
  using scroll_isScrolling [of time captured s] reachable_not_scrolling [of es sg c]
  by blast

theorem C4_scroll_stops_at_end_witness:
  "isScrolling (run scrolling_short_of_end (mount DEFAULT_SONG example_container))
   \<and> isScrolling (scroll 1010 True
        (run scrolling_short_of_end (mount DEFAULT_SONG example_container)))
   \<and> \<not> isScrolling (scroll 1650 True
        (run scrolling_short_of_end (mount DEFAULT_SONG example_container)))
   \<and> \<not> isScrolling (run (scrolling_short_of_end @ [AnimationFrame 3 1650 (\<lambda>i. 0)])
        (mount DEFAULT_SONG example_container))
   \<and> scroll_ticks (rafQueue (run (scrolling_short_of_end @ [AnimationFrame 3 1650 (\<lambda>i. 0)])
        (mount DEFAULT_SONG example_container))) = []"
proof -
  let ?s = "run scrolling_short_of_end (mount DEFAULT_SONG example_container)"
  let ?es = "scrolling_short_of_end @ [AnimationFrame 3 1650 (\<lambda>i. 0)]"
  have h: "isScrolling ?s" "lastFrameTime ?s = 1000" "scrollspeed (song ?s) = 30"
    "containerRef ?s = \<lparr>scrollTop = 580, scrollHeight = 1000, clientHeight = 400\<rparr>"
    by (simp_all add: eval_defs trace_defs)
  have n: "\<not> isScrolling (run ?es (mount DEFAULT_SONG example_container))"
    by (simp add: eval_defs trace_defs)
  note a = C4_scroll_stops_at_end [of 1010 True ?s ?es DEFAULT_SONG example_container]
  note b = C4_scroll_stops_at_end [of 1650 True ?s ?es DEFAULT_SONG example_container]
  from a h have 1: "isScrolling (scroll 1010 True ?s)"
    by (simp add: scroll_containerRef set_scrollTop_def)
  from b h have 2: "\<not> isScrolling (scroll 1650 True ?s)"
    by (simp add: scroll_containerRef set_scrollTop_def)
  from b n have 3: "scroll_ticks (rafQueue (run ?es (mount DEFAULT_SONG example_container))) = []"
    by blast
  from h(1) 1 2 n 3 show ?thesis by simp
qed

text \<open>
  C4 as stated fails, in both of its parts, in one run. A tick at offset 580 moves to
  599.5, within one unit of the end at 600, and stops the scroll; this arms the hook
  again. Its acquisition resolves with a signal at -20 dB, which starts the scroll. The
  first tick of the new scroll runs with the offset at 599.5 and does not stop it: a
  tick while scrolling, within one unit of the end, and no transition. The second tick
  moves the offset to 600: an automatic advance after the transition that the claim
  calls terminal.
\<close>

theorem C4_not_terminal_counterexample:
  "\<not> isScrolling (run (scrolling_short_of_end @ [AnimationFrame 3 1650 (\<lambda>i. 0)])
        (mount DEFAULT_SONG example_container))
   \<and> scrollTop (containerRef (run (scrolling_short_of_end @ [AnimationFrame 3 1650 (\<lambda>i. 0)])
        (mount DEFAULT_SONG example_container))) = 599.5
   \<and> isScrolling (run (scrolling_short_of_end @ [AnimationFrame 3 1650 (\<lambda>i. 0),
          GetUserMediaResolved (signal_at_db (- 20))])
        (mount DEFAULT_SONG example_container))
   \<and> isScrolling (run (scrolling_short_of_end @ [AnimationFrame 3 1650 (\<lambda>i. 0),
          GetUserMediaResolved (signal_at_db (- 20)), AnimationFrame 6 2000 (\<lambda>i. 0)])
        (mount DEFAULT_SONG example_container))
   \<and> scrollTop (containerRef (run (scrolling_short_of_end @ [AnimationFrame 3 1650 (\<lambda>i. 0),
          GetUserMediaResolved (signal_at_db (- 20)), AnimationFrame 6 2000 (\<lambda>i. 0)])
        (mount DEFAULT_SONG example_container))) = 599.5
   \<and> scrollTop (containerRef (run (scrolling_short_of_end @ [AnimationFrame 3 1650 (\<lambda>i. 0),
          GetUserMediaResolved (signal_at_db (- 20)), AnimationFrame 6 2000 (\<lambda>i. 0),
          AnimationFrame 7 2100 (\<lambda>i. 0)])
        (mount DEFAULT_SONG example_container))) = 600"
  by (simp add: eval_defs trace_defs)

end
